theory Spec2Isabelle
  imports Main "HOL-Library.Word"
begin

unbundle bit_operations_syntax

section \<open>Data model (npy.go)\<close>

text \<open>
  Go's \<open>byte\<close>/\<open>uint8\<close> is an 8-bit word and Go's \<open>int\<close> is taken at its 64-bit
  width (amd64/arm64): multiplication wraps modulo \<open>2 ^ 64\<close> and \<open>sint\<close> reads the
  two's-complement value. A Go \<open>string\<close> is a byte sequence; Isabelle's \<open>char\<close> is a
  byte as well, so header texts are \<open>string\<close>s and \<open>[]byte(s)\<close>, \<open>string(bs)\<close> are the
  two maps below.
\<close>

type_synonym byte = "8 word"
type_synonym goint = "64 word"

definition byte_of_char :: "char \<Rightarrow> byte" where
  "byte_of_char c = of_char c"

definition char_of_byte :: "byte \<Rightarrow> char" where
  "char_of_byte b = char_of (uint b)"

definition bytes_of_string :: "string \<Rightarrow> byte list" where
  "bytes_of_string s = map byte_of_char s"

definition string_of_bytes :: "byte list \<Rightarrow> string" where
  "string_of_bytes bs = map char_of_byte bs"

text \<open>\<open>type DType string\<close> with its eleven named constants.\<close>

type_synonym DType = string

definition Bool :: DType where "Bool = ''bool''"
definition Int8 :: DType where "Int8 = ''int8''"
definition Int16 :: DType where "Int16 = ''int16''"
definition Int32 :: DType where "Int32 = ''int32''"
definition Int64 :: DType where "Int64 = ''int64''"
definition Uint8 :: DType where "Uint8 = ''uint8''"
definition Uint16 :: DType where "Uint16 = ''uint16''"
definition Uint32 :: DType where "Uint32 = ''uint32''"
definition Uint64 :: DType where "Uint64 = ''uint64''"
definition Float32 :: DType where "Float32 = ''float32''"
definition Float64 :: DType where "Float64 = ''float64''"

definition supported_dtypes :: "DType list" where
  "supported_dtypes =
     [Bool, Int8, Int16, Int32, Int64, Uint8, Uint16, Uint32, Uint64, Float32, Float64]"

text \<open>
  The type parameter \<open>T\<close> of \<open>Array[T]\<close>, \<open>Read[T]\<close> and \<open>Get[T]\<close>, over the eleven
  fixed-size element types the library names, and the values of those types. A float is
  carried as its IEEE-754 bit pattern, which is what \<open>encoding/binary\<close> writes and reads
  (\<open>math.Float64bits\<close>, \<open>math.Float64frombits\<close>).
\<close>

datatype GoType = TBool | TInt8 | TInt16 | TInt32 | TInt64
  | TUint8 | TUint16 | TUint32 | TUint64 | TFloat32 | TFloat64

datatype Value = VBool bool
  | VInt8 "8 word" | VInt16 "16 word" | VInt32 "32 word" | VInt64 "64 word"
  | VUint8 "8 word" | VUint16 "16 word" | VUint32 "32 word" | VUint64 "64 word"
  | VFloat32 "32 word" | VFloat64 "64 word"

fun type_of :: "Value \<Rightarrow> GoType" where
  "type_of (VBool _) = TBool"
| "type_of (VInt8 _) = TInt8"
| "type_of (VInt16 _) = TInt16"
| "type_of (VInt32 _) = TInt32"
| "type_of (VInt64 _) = TInt64"
| "type_of (VUint8 _) = TUint8"
| "type_of (VUint16 _) = TUint16"
| "type_of (VUint32 _) = TUint32"
| "type_of (VUint64 _) = TUint64"
| "type_of (VFloat32 _) = TFloat32"
| "type_of (VFloat64 _) = TFloat64"

text \<open>The \<open>DType\<close> constant that goes with each element type.\<close>

fun dtype_of :: "GoType \<Rightarrow> DType" where
  "dtype_of TBool = Bool"
| "dtype_of TInt8 = Int8"
| "dtype_of TInt16 = Int16"
| "dtype_of TInt32 = Int32"
| "dtype_of TInt64 = Int64"
| "dtype_of TUint8 = Uint8"
| "dtype_of TUint16 = Uint16"
| "dtype_of TUint32 = Uint32"
| "dtype_of TUint64 = Uint64"
| "dtype_of TFloat32 = Float32"
| "dtype_of TFloat64 = Float64"

text \<open>
  \<open>type Array[T any] struct\<close>. A Go slice can be \<open>nil\<close>, which \<open>Write\<close> tests for, so
  the two slice fields are options: \<open>None\<close> is the nil slice, \<open>Some []\<close> an empty one.
  \<open>len\<close> and \<open>range\<close> treat both alike.
\<close>

record Array =
  Data :: "Value list option"
  Shape :: "goint list option"
  DType :: DType
  Fortran :: bool

definition elems :: "'a list option \<Rightarrow> 'a list" where
  "elems s = (case s of None \<Rightarrow> [] | Some xs \<Rightarrow> xs)"

definition len :: "'a list option \<Rightarrow> int" where
  "len s = int (length (elems s))"

text \<open>\<open>type header struct\<close>; \<open>parseHeader\<close> always builds its shape with \<open>make\<close>.\<close>

record header =
  hShape :: "goint list"
  hDType :: DType
  hFortran :: bool

text \<open>
  Errors. \<open>Wrapped ctx e\<close> is \<open>fmt.Errorf("ctx: %w", e)\<close>; \<open>Panic\<close> is a run-time
  panic, which is not an error value in Go and is never wrapped.
\<close>

datatype io_error = EOF | ErrUnexpectedEOF

datatype error =
    IOError io_error
  | ArrayDataNil
  | ArrayShapeNil
  | ArrayDTypeEmpty
  | DataLengthMismatch int int
  | InvalidMagic "byte list"
  | UnsupportedVersion byte byte
  | InvalidHeaderFormat
  | ShapeNotFound
  | InvalidShapeDimension string
  | DTypeNotFound
  | UnsupportedDType string
  | InvalidDTypeFormat string
  | FortranOrderNotFound
  | UnsupportedVersionIn string byte byte
  | UnsupportedDTypeIn string DType
  | UnsupportedDimensions
  | Wrapped string error
  | Panic string

fun wrap :: "string \<Rightarrow> error \<Rightarrow> error" where
  "wrap ctx (Panic m) = Panic m"
| "wrap ctx e = Wrapped ctx e"

section \<open>\<open>strconv.Itoa\<close> and \<open>strconv.Atoi\<close>\<close>

definition digit_char :: "nat \<Rightarrow> char" where
  "digit_char k = ''0123456789'' ! k"

fun digits :: "nat \<Rightarrow> string" where
  "digits n = (if n < 10 then [digit_char n] else digits (n div 10) @ [digit_char (n mod 10)])"

declare digits.simps [simp del]

text \<open>Decimal text of an integer, as \<open>strconv.FormatInt(i, 10)\<close> gives it.\<close>

definition FormatInt :: "int \<Rightarrow> string" where
  "FormatInt i = (if i < 0 then CHR ''-'' # digits (nat (- i)) else digits (nat i))"

definition Itoa :: "goint \<Rightarrow> string" where
  "Itoa d = FormatInt (sint d)"

definition is_digit :: "char \<Rightarrow> bool" where
  "is_digit c = (c \<in> set ''0123456789'')"

definition digit_val :: "char \<Rightarrow> int" where
  "digit_val c = of_char c - 48"

definition parse_digits :: "string \<Rightarrow> int" where
  "parse_digits s = foldl (\<lambda>n c. n * 10 + digit_val c) 0 s"

text \<open>
  \<open>strconv.Atoi\<close>: an optional sign, then one or more decimal digits, accepted when the
  value lies in the range of \<open>int\<close>; \<open>None\<close> stands for its syntax and range errors, which
  \<open>parseHeader\<close> does not tell apart.
\<close>

definition Atoi :: "string \<Rightarrow> goint option" where
  "Atoi s =
     (let neg = (s \<noteq> [] \<and> hd s = CHR ''-'');
          body = (if s \<noteq> [] \<and> (hd s = CHR ''-'' \<or> hd s = CHR ''+'') then tl s else s)
      in if body = [] \<or> \<not> list_all is_digit body then None
         else if neg then
           (if parse_digits body \<le> 2 ^ 63 then Some (- of_int (parse_digits body)) else None)
         else
           (if parse_digits body < 2 ^ 63 then Some (of_int (parse_digits body)) else None))"

section \<open>\<open>encoding/binary\<close>, little endian\<close>

definition LE_PutUint16 :: "16 word \<Rightarrow> byte list" where
  "LE_PutUint16 v = [ucast v, ucast (drop_bit 8 v)]"

definition LE_PutUint32 :: "32 word \<Rightarrow> byte list" where
  "LE_PutUint32 v = [ucast v, ucast (drop_bit 8 v), ucast (drop_bit 16 v), ucast (drop_bit 24 v)]"

definition LE_PutUint64 :: "64 word \<Rightarrow> byte list" where
  "LE_PutUint64 v = [ucast v, ucast (drop_bit 8 v), ucast (drop_bit 16 v), ucast (drop_bit 24 v),
     ucast (drop_bit 32 v), ucast (drop_bit 40 v), ucast (drop_bit 48 v), ucast (drop_bit 56 v)]"

text \<open>The three readers are applied to slices of exactly 2, 4 and 8 bytes.\<close>

fun LE_Uint16 :: "byte list \<Rightarrow> 16 word" where
  "LE_Uint16 [b0, b1] = ucast b0 OR push_bit 8 (ucast b1)"
| "LE_Uint16 _ = 0"

fun LE_Uint32 :: "byte list \<Rightarrow> 32 word" where
  "LE_Uint32 [b0, b1, b2, b3] =
     ucast b0 OR push_bit 8 (ucast b1) OR push_bit 16 (ucast b2) OR push_bit 24 (ucast b3)"
| "LE_Uint32 _ = 0"

fun LE_Uint64 :: "byte list \<Rightarrow> 64 word" where
  "LE_Uint64 [b0, b1, b2, b3, b4, b5, b6, b7] =
     ucast b0 OR push_bit 8 (ucast b1) OR push_bit 16 (ucast b2) OR push_bit 24 (ucast b3)
     OR push_bit 32 (ucast b4) OR push_bit 40 (ucast b5) OR push_bit 48 (ucast b6)
     OR push_bit 56 (ucast b7)"
| "LE_Uint64 _ = 0"

text \<open>\<open>binary.Write\<close> of one element and the size \<open>binary\<close> gives each element type.\<close>

fun putValue :: "Value \<Rightarrow> byte list" where
  "putValue (VBool b) = [if b then 1 else 0]"
| "putValue (VInt8 w) = [w]"
| "putValue (VInt16 w) = LE_PutUint16 w"
| "putValue (VInt32 w) = LE_PutUint32 w"
| "putValue (VInt64 w) = LE_PutUint64 w"
| "putValue (VUint8 w) = [w]"
| "putValue (VUint16 w) = LE_PutUint16 w"
| "putValue (VUint32 w) = LE_PutUint32 w"
| "putValue (VUint64 w) = LE_PutUint64 w"
| "putValue (VFloat32 w) = LE_PutUint32 w"
| "putValue (VFloat64 w) = LE_PutUint64 w"

fun width :: "GoType \<Rightarrow> nat" where
  "width TBool = 1"
| "width TInt8 = 1"
| "width TInt16 = 2"
| "width TInt32 = 4"
| "width TInt64 = 8"
| "width TUint8 = 1"
| "width TUint16 = 2"
| "width TUint32 = 4"
| "width TUint64 = 8"
| "width TFloat32 = 4"
| "width TFloat64 = 8"

text \<open>\<open>binary.Read\<close> of one element of type \<open>T\<close> from exactly \<open>width T\<close> bytes.\<close>

fun getValue :: "GoType \<Rightarrow> byte list \<Rightarrow> Value" where
  "getValue TBool bs = VBool (hd bs \<noteq> 0)"
| "getValue TInt8 bs = VInt8 (hd bs)"
| "getValue TInt16 bs = VInt16 (LE_Uint16 bs)"
| "getValue TInt32 bs = VInt32 (LE_Uint32 bs)"
| "getValue TInt64 bs = VInt64 (LE_Uint64 bs)"
| "getValue TUint8 bs = VUint8 (hd bs)"
| "getValue TUint16 bs = VUint16 (LE_Uint16 bs)"
| "getValue TUint32 bs = VUint32 (LE_Uint32 bs)"
| "getValue TUint64 bs = VUint64 (LE_Uint64 bs)"
| "getValue TFloat32 bs = VFloat32 (LE_Uint32 bs)"
| "getValue TFloat64 bs = VFloat64 (LE_Uint64 bs)"

section \<open>Header generation and \<open>Write\<close>\<close>

definition newline :: char where
  "newline = CHR 0x0A"

text \<open>The \<open>switch arr.DType\<close> of \<open>generateHeader\<close>, with its \<open>default\<close> branch.\<close>

definition genDtypeStr :: "DType \<Rightarrow> string" where
  "genDtypeStr d =
     (if d = Bool then ''|b1''
      else if d = Int8 then ''|i1''
      else if d = Int16 then ''<i2''
      else if d = Int32 then ''<i4''
      else if d = Int64 then ''<i8''
      else if d = Uint8 then ''|u1''
      else if d = Uint16 then ''<u2''
      else if d = Uint32 then ''<u4''
      else if d = Uint64 then ''<u8''
      else if d = Float32 then ''<f4''
      else if d = Float64 then ''<f8''
      else ''<f8'')"

text \<open>The loop \<open>for i, dim := range arr.Shape\<close>, started at index \<open>i\<close> with text \<open>s\<close>.\<close>

fun shapeLoop :: "nat \<Rightarrow> goint list \<Rightarrow> string \<Rightarrow> string" where
  "shapeLoop i [] s = s"
| "shapeLoop i (dim # rest) s =
     shapeLoop (i + 1) rest ((if i > 0 then s @ '', '' else s) @ Itoa dim)"

definition genShapeStr :: "goint list option \<Rightarrow> string" where
  "genShapeStr shp =
     (let s = shapeLoop 0 (elems shp) ''('';
          s = (if len shp = 0 then s @ '','' else if len shp = 1 then s @ '','' else s)
      in s @ '')'')"

definition generateHeader :: "Array \<Rightarrow> string" where
  "generateHeader arr =
     ''{'' @ [CHR 0x27] @ ''descr'' @ [CHR 0x27] @ '': '' @ [CHR 0x27] @ genDtypeStr (DType arr)
       @ [CHR 0x27] @ '', '' @ [CHR 0x27] @ ''fortran_order'' @ [CHR 0x27] @ '': ''
       @ (if Fortran arr then ''True'' else ''False'')
       @ '', '' @ [CHR 0x27] @ ''shape'' @ [CHR 0x27] @ '': '' @ genShapeStr (Shape arr) @ '', }''"

text \<open>
  Lines 570 to 575 of \<open>Write\<close>: the padding that brings the ten bytes before the header
  text plus the text itself to a multiple of 16.
\<close>

definition paddingLen :: "string \<Rightarrow> int" where
  "paddingLen headerStr =
     (let p = 16 - ((10 + int (length headerStr)) mod 16)
      in if p < 1 then p + 16 else p)"

definition padHeader :: "string \<Rightarrow> string" where
  "padHeader headerStr =
     headerStr @ replicate (nat (paddingLen headerStr - 1)) (CHR '' '') @ [newline]"

definition magic :: "byte list" where
  "magic = [0x93, 0x4E, 0x55, 0x4D, 0x50, 0x59]"

definition totalElements :: "goint list \<Rightarrow> goint" where
  "totalElements shape = foldl (\<lambda>t dim. t * dim) 1 shape"

text \<open>
  \<open>Write\<close> into an in-memory writer that never fails (a \<open>bytes.Buffer\<close>): the result is
  the validation error or the bytes written.
\<close>

definition Write :: "Array \<Rightarrow> error + byte list" where
  "Write arr =
     (if Data arr = None then Inl ArrayDataNil
      else if Shape arr = None then Inl ArrayShapeNil
      else if DType arr = [] then Inl ArrayDTypeEmpty
      else if len (Data arr) \<noteq> sint (totalElements (elems (Shape arr)))
        then Inl (DataLengthMismatch (len (Data arr)) (sint (totalElements (elems (Shape arr)))))
      else
        (let headerStr = padHeader (generateHeader arr)
         in Inr (magic @ [1, 0] @ LE_PutUint16 (of_nat (length headerStr))
                 @ bytes_of_string headerStr @ concat (map putValue (elems (Data arr))))))"

section \<open>The three field patterns of \<open>parseHeader\<close>\<close>

text \<open>
  Go's \<open>regexp\<close> returns the leftmost match and, at that start, prefers more repetitions.
  Each pattern used here is a literal followed by repetitions of a character class whose
  complement contains the character that must come next, so at a given start there is at
  most one way to match: run each class as far as it goes and test the next character.
  The search then tries the starts from left to right. A Go string is matched rune by
  rune, but every literal here is ASCII and a byte that is not valid UTF-8 counts as one
  rune, so the byte-wise reading below gives the same spans.
\<close>

abbreviation (input) quote :: char where
  "quote \<equiv> CHR 0x27"

definition is_space :: "char \<Rightarrow> bool" where
  \<comment> \<open>the class \<open>\s\<close> of \<open>regexp\<close>: tab, newline, form feed, carriage return, space\<close>
  "is_space c = (c \<in> set [CHR 0x09, CHR 0x0A, CHR 0x0C, CHR 0x0D, CHR 0x20])"

definition shape_class :: "char \<Rightarrow> bool" where
  \<comment> \<open>the class \<open>[\d,\s]\<close>\<close>
  "shape_class c = (is_digit c \<or> c = CHR '','' \<or> is_space c)"

fun stripPrefix :: "string \<Rightarrow> string \<Rightarrow> string option" where
  "stripPrefix [] s = Some s"
| "stripPrefix (p # ps) [] = None"
| "stripPrefix (p # ps) (c # cs) = (if p = c then stripPrefix ps cs else None)"

text \<open>The longest prefix of a text that ends with the character \<open>c\<close>.\<close>

fun uptoLast :: "char \<Rightarrow> string \<Rightarrow> string option" where
  "uptoLast c [] = None"
| "uptoLast c (x # xs) =
     (case uptoLast c xs of
        Some p \<Rightarrow> Some (x # p)
      | None \<Rightarrow> if x = c then Some [x] else None)"

text \<open>
  \<open>regexp.MustCompile(`{.*}`).FindString\<close>: the dot does not match a newline, so from
  the first opening brace that has a closing brace later on its line, up to the last
  closing brace of that line.
\<close>

fun findDict :: "string \<Rightarrow> string option" where
  "findDict [] = None"
| "findDict (c # cs) =
     (if c = CHR ''{'' then
        (case uptoLast (CHR ''}'') (takeWhile (\<lambda>x. x \<noteq> newline) cs) of
           Some body \<Rightarrow> Some (c # body)
         | None \<Rightarrow> findDict cs)
      else findDict cs)"

text \<open>The first start, from the left, at which a pattern matches.\<close>

fun findFirst :: "(string \<Rightarrow> 'a option) \<Rightarrow> string \<Rightarrow> 'a option" where
  "findFirst m [] = m []"
| "findFirst m (c # cs) = (case m (c # cs) of Some r \<Rightarrow> Some r | None \<Rightarrow> findFirst m cs)"

text \<open>\<open>'shape':\s*\(([\d,\s]*)\)\<close> at the start of \<open>s\<close>, giving group 1.\<close>

definition matchShapeAt :: "string \<Rightarrow> string option" where
  "matchShapeAt s =
     (case stripPrefix ([quote] @ ''shape'' @ [quote] @ '':'') s of
        None \<Rightarrow> None
      | Some r \<Rightarrow>
          (case dropWhile is_space r of
             [] \<Rightarrow> None
           | p # r2 \<Rightarrow>
               if p \<noteq> CHR ''('' then None
               else (case dropWhile shape_class r2 of
                       [] \<Rightarrow> None
                     | q # _ \<Rightarrow> if q = CHR '')'' then Some (takeWhile shape_class r2) else None)))"

text \<open>\<open>'descr':\s*'([^']*)'\<close> at the start of \<open>s\<close>, giving group 1.\<close>

definition matchDescrAt :: "string \<Rightarrow> string option" where
  "matchDescrAt s =
     (case stripPrefix ([quote] @ ''descr'' @ [quote] @ '':'') s of
        None \<Rightarrow> None
      | Some r \<Rightarrow>
          (case dropWhile is_space r of
             [] \<Rightarrow> None
           | p # r2 \<Rightarrow>
               if p \<noteq> quote then None
               else (case dropWhile (\<lambda>x. x \<noteq> quote) r2 of
                       [] \<Rightarrow> None
                     | _ # _ \<Rightarrow> Some (takeWhile (\<lambda>x. x \<noteq> quote) r2))))"

text \<open>\<open>'fortran_order':\s*(True|False)\<close> at the start of \<open>s\<close>, giving group 1.\<close>

definition matchFortranAt :: "string \<Rightarrow> string option" where
  "matchFortranAt s =
     (case stripPrefix ([quote] @ ''fortran_order'' @ [quote] @ '':'') s of
        None \<Rightarrow> None
      | Some r \<Rightarrow>
          if stripPrefix ''True'' (dropWhile is_space r) \<noteq> None then Some ''True''
          else if stripPrefix ''False'' (dropWhile is_space r) \<noteq> None then Some ''False''
          else None)"

section \<open>\<open>parseHeader\<close>\<close>

text \<open>\<open>strings.Split(s, ",")\<close>: one more part than there are commas.\<close>

fun Split :: "char \<Rightarrow> string \<Rightarrow> string list" where
  "Split sep [] = [[]]"
| "Split sep (c # cs) =
     (if c = sep then [] # Split sep cs
      else (case Split sep cs of p # ps \<Rightarrow> (c # p) # ps | [] \<Rightarrow> [[c]]))"

text \<open>
  \<open>strings.TrimSpace\<close> on ASCII text, which is all it is given here: the white space of
  \<open>unicode.IsSpace\<close> below 128 is tab, newline, vertical tab, form feed, carriage return
  and space.
\<close>

definition isSpace :: "char \<Rightarrow> bool" where
  "isSpace c = (c \<in> set [CHR 0x09, CHR 0x0A, CHR 0x0B, CHR 0x0C, CHR 0x0D, CHR 0x20])"

definition TrimSpace :: "string \<Rightarrow> string" where
  "TrimSpace s = rev (dropWhile isSpace (rev (dropWhile isSpace s)))"

text \<open>The loop \<open>for _, part := range shapeParts\<close>, with the shape built so far.\<close>

fun parseShapeParts :: "string list \<Rightarrow> goint list \<Rightarrow> error + goint list" where
  "parseShapeParts [] shape = Inr shape"
| "parseShapeParts (part # rest) shape =
     (let part = TrimSpace part
      in if part = [] then parseShapeParts rest shape
         else (case Atoi part of
                 None \<Rightarrow> Inl (InvalidShapeDimension part)
               | Some dim \<Rightarrow> parseShapeParts rest (shape @ [dim])))"

text \<open>The \<open>switch typeChar\<close>; \<open>None\<close> is its \<open>default\<close> branch.\<close>

definition dtypeOfTypeChar :: "string \<Rightarrow> DType option" where
  "dtypeOfTypeChar typeChar =
     (if typeChar = ''b1'' then Some Bool
      else if typeChar = ''i1'' then Some Int8
      else if typeChar = ''i2'' then Some Int16
      else if typeChar = ''i4'' then Some Int32
      else if typeChar = ''i8'' then Some Int64
      else if typeChar = ''u1'' then Some Uint8
      else if typeChar = ''u2'' then Some Uint16
      else if typeChar = ''u4'' then Some Uint32
      else if typeChar = ''u8'' then Some Uint64
      else if typeChar = ''f4'' then Some Float32
      else if typeChar = ''f8'' then Some Float64
      else None)"

definition parseHeader :: "string \<Rightarrow> error + header" where
  "parseHeader headerStr =
     (case findDict headerStr of
        None \<Rightarrow> Inl InvalidHeaderFormat
      | Some dictStr \<Rightarrow>
     (case findFirst matchShapeAt dictStr of
        None \<Rightarrow> Inl ShapeNotFound
      | Some shapeStr \<Rightarrow>
     (case parseShapeParts (Split (CHR '','') shapeStr) [] of
        Inl e \<Rightarrow> Inl e
      | Inr shape \<Rightarrow>
     (case findFirst matchDescrAt dictStr of
        None \<Rightarrow> Inl DTypeNotFound
      | Some dtypeStr \<Rightarrow>
          if length dtypeStr \<ge> 2 then
            (case dtypeOfTypeChar (drop 1 dtypeStr) of
               None \<Rightarrow> Inl (UnsupportedDType dtypeStr)
             | Some dtype \<Rightarrow>
                 (case findFirst matchFortranAt dictStr of
                    None \<Rightarrow> Inl FortranOrderNotFound
                  | Some fortranStr \<Rightarrow>
                      Inr \<lparr>hShape = shape, hDType = dtype, hFortran = (fortranStr = ''True'')\<rparr>))
          else Inl (InvalidDTypeFormat dtypeStr)))))"

section \<open>\<open>Read\<close>\<close>

text \<open>
  A reader is the list of bytes still to come. \<open>io.ReadFull\<close> of \<open>n\<close> bytes gives the
  bytes and the rest of the reader, \<open>EOF\<close> when nothing could be read and
  \<open>ErrUnexpectedEOF\<close> when the reader ends early; \<open>binary.Read\<close> of a fixed-size value
  fails the same way.
\<close>

definition ReadFull :: "nat \<Rightarrow> byte list \<Rightarrow> io_error + (byte list \<times> byte list)" where
  "ReadFull n r =
     (if n = 0 then Inr ([], r)
      else if r = [] then Inl EOF
      else if length r < n then Inl ErrUnexpectedEOF
      else Inr (take n r, drop n r))"

fun decodeValues :: "GoType \<Rightarrow> nat \<Rightarrow> byte list \<Rightarrow> Value list" where
  "decodeValues T 0 bs = []"
| "decodeValues T (Suc n) bs =
     getValue T (take (width T) bs) # decodeValues T n (drop (width T) bs)"

text \<open>
  \<open>readData[T]\<close>. \<open>make([]T, n)\<close> panics for a negative \<open>n\<close>; the limits of memory on
  a large \<open>n\<close> are not modelled, the read that follows fails on a reader that is too short.
\<close>

definition readData :: "GoType \<Rightarrow> byte list \<Rightarrow> header \<Rightarrow> error + Value list" where
  "readData T r hdr =
     (let total = sint (totalElements (hShape hdr))
      in if total < 0 then Inl (Panic ''makeslice: len out of range'')
         else (case ReadFull (nat total * width T) r of
                 Inl e \<Rightarrow> Inl (Wrapped ''failed to read data'' (IOError e))
               | Inr (bs, _) \<Rightarrow> Inr (decodeValues T (nat total) bs)))"

text \<open>
  The header-length step shared by \<open>Read\<close> and \<open>ReadNPZFile\<close>: two bytes for major
  version 1, four bytes narrowed by \<open>uint16(headerLen32)\<close> for major version 2. \<open>Inl None\<close>
  is the \<open>else\<close> branch (unsupported version), which the two callers report differently.
\<close>

definition readHeaderLen :: "byte \<Rightarrow> byte list \<Rightarrow> io_error option + (16 word \<times> byte list)" where
  "readHeaderLen major r =
     (if major = 1 then
        (case ReadFull 2 r of
           Inl e \<Rightarrow> Inl (Some e)
         | Inr (bs, r') \<Rightarrow> Inr (LE_Uint16 bs, r'))
      else if major = 2 then
        (case ReadFull 4 r of
           Inl e \<Rightarrow> Inl (Some e)
         | Inr (bs, r') \<Rightarrow> Inr (ucast (LE_Uint32 bs), r'))
      else Inl None)"

definition Read :: "GoType \<Rightarrow> byte list \<Rightarrow> error + Array" where
  "Read T r =
     (case ReadFull 6 r of
        Inl e \<Rightarrow> Inl (Wrapped ''failed to read magic string'' (IOError e))
      | Inr (mg, r1) \<Rightarrow>
     if mg \<noteq> magic then Inl (InvalidMagic mg) else
     (case ReadFull 1 r1 of
        Inl e \<Rightarrow> Inl (Wrapped ''failed to read major version'' (IOError e))
      | Inr (major, r2) \<Rightarrow>
     (case ReadFull 1 r2 of
        Inl e \<Rightarrow> Inl (Wrapped ''failed to read minor version'' (IOError e))
      | Inr (minor, r3) \<Rightarrow>
     (case readHeaderLen (hd major) r3 of
        Inl (Some e) \<Rightarrow> Inl (Wrapped ''failed to read header length'' (IOError e))
      | Inl None \<Rightarrow> Inl (UnsupportedVersion (hd major) (hd minor))
      | Inr (headerLen, r4) \<Rightarrow>
     (case ReadFull (unat headerLen) r4 of
        Inl e \<Rightarrow> Inl (Wrapped ''failed to read header'' (IOError e))
      | Inr (headerBytes, r5) \<Rightarrow>
     (case parseHeader (string_of_bytes headerBytes) of
        Inl e \<Rightarrow> Inl (wrap ''failed to parse header'' e)
      | Inr hdr \<Rightarrow>
     (case readData T r5 hdr of
        Inl e \<Rightarrow> Inl (wrap ''failed to read data'' e)
      | Inr data \<Rightarrow>
          Inr \<lparr>Data = Some data, Shape = Some (hShape hdr), DType = hDType hdr,
               Fortran = hFortran hdr\<rparr>)))))))"

section \<open>The container: \<open>NPZFile\<close>, \<open>Add\<close>, \<open>Get\<close>, \<open>ReadNPZFile\<close>\<close>

text \<open>
  \<open>arrays map[string]interface{}\<close>: an interface value pairs the dynamic type of what it
  holds with the value itself. \<open>Add[T]\<close> stores a \<open>*Array[T]\<close>, so an entry is the type
  argument \<open>T\<close> together with the array, and the type assertion \<open>val.(*Array[T])\<close> of
  \<open>Get[T]\<close> succeeds exactly when the stored type argument is \<open>T\<close>. The pointer result of
  \<open>Get\<close> is an option, \<open>None\<close> for \<open>nil\<close>.
\<close>

record NPZFile =
  arrays :: "string \<rightharpoonup> GoType \<times> Array"

definition NewNPZFile :: NPZFile where
  "NewNPZFile = \<lparr>arrays = Map.empty\<rparr>"

definition Add :: "GoType \<Rightarrow> NPZFile \<Rightarrow> string \<Rightarrow> Array \<Rightarrow> NPZFile" where
  "Add T npz name arr = npz\<lparr>arrays := (arrays npz)(name \<mapsto> (T, arr))\<rparr>"

definition Get :: "GoType \<Rightarrow> NPZFile \<Rightarrow> string \<Rightarrow> Array option \<times> bool" where
  "Get T npz name =
     (case arrays npz name of
        None \<Rightarrow> (None, False)
      | Some (T', arr) \<Rightarrow> if T' = T then (Some arr, True) else (None, False))"

text \<open>
  An opened archive is the list of its entries, \<open>zipReader.File\<close>; opening an entry gives
  a reader over its content and does not fail.
\<close>

record zipEntry =
  Name :: string
  IsDir :: bool
  Content :: "byte list"

definition TrimSuffix :: "string \<Rightarrow> string \<Rightarrow> string" where
  "TrimSuffix s suffix =
     (if length suffix \<le> length s \<and> drop (length s - length suffix) s = suffix
      then take (length s - length suffix) s else s)"

text \<open>
  Lines 155 to 203 of \<open>ReadNPZFile\<close>: the first reading of a member, up to its parsed
  header. The six bytes read into \<open>magic\<close> are not looked at.
\<close>

definition peekHeader :: "string \<Rightarrow> byte list \<Rightarrow> error + header" where
  "peekHeader fname r =
     (case ReadFull 6 r of
        Inl e \<Rightarrow> Inl (Wrapped (''failed to read magic string from '' @ fname) (IOError e))
      | Inr (mg, r1) \<Rightarrow>
     (case ReadFull 1 r1 of
        Inl e \<Rightarrow> Inl (Wrapped (''failed to read major version from '' @ fname) (IOError e))
      | Inr (major, r2) \<Rightarrow>
     (case ReadFull 1 r2 of
        Inl e \<Rightarrow> Inl (Wrapped (''failed to read minor version from '' @ fname) (IOError e))
      | Inr (minor, r3) \<Rightarrow>
     (case readHeaderLen (hd major) r3 of
        Inl (Some e) \<Rightarrow> Inl (Wrapped (''failed to read header length from '' @ fname) (IOError e))
      | Inl None \<Rightarrow> Inl (UnsupportedVersionIn fname (hd major) (hd minor))
      | Inr (headerLen, r4) \<Rightarrow>
     (case ReadFull (unat headerLen) r4 of
        Inl e \<Rightarrow> Inl (Wrapped (''failed to read header from '' @ fname) (IOError e))
      | Inr (headerBytes, r5) \<Rightarrow>
     (case parseHeader (string_of_bytes headerBytes) of
        Inl e \<Rightarrow> Inl (wrap (''failed to parse header from '' @ fname) e)
      | Inr hdr \<Rightarrow> Inr hdr))))))"

text \<open>The \<open>switch hdr.DType\<close> that picks the instance of \<open>Read\<close>; \<open>None\<close> is \<open>default\<close>.\<close>

definition typeOfDType :: "DType \<Rightarrow> GoType option" where
  "typeOfDType d =
     (if d = Bool then Some TBool
      else if d = Int8 then Some TInt8
      else if d = Int16 then Some TInt16
      else if d = Int32 then Some TInt32
      else if d = Int64 then Some TInt64
      else if d = Uint8 then Some TUint8
      else if d = Uint16 then Some TUint16
      else if d = Uint32 then Some TUint32
      else if d = Uint64 then Some TUint64
      else if d = Float32 then Some TFloat32
      else if d = Float64 then Some TFloat64
      else None)"

text \<open>The body of the loop over the entries, for an entry that is not a directory.\<close>

definition readMember :: "zipEntry \<Rightarrow> error + (string \<times> GoType \<times> Array)" where
  "readMember f =
     (let name = TrimSuffix (Name f) ''.npy''
      in case peekHeader (Name f) (Content f) of
           Inl e \<Rightarrow> Inl e
         | Inr hdr \<Rightarrow>
             (case typeOfDType (hDType hdr) of
                None \<Rightarrow> Inl (UnsupportedDTypeIn (Name f) (hDType hdr))
              | Some T \<Rightarrow>
                  (case Read T (Content f) of
                     Inl e \<Rightarrow>
                       Inl (wrap (''failed to read '' @ hDType hdr @ '' array from '' @ Name f) e)
                   | Inr arr \<Rightarrow> Inr (name, T, arr))))"

fun readMembers :: "zipEntry list \<Rightarrow> NPZFile \<Rightarrow> error + NPZFile" where
  "readMembers [] npz = Inr npz"
| "readMembers (f # fs) npz =
     (if IsDir f then readMembers fs npz
      else (case readMember f of
              Inl e \<Rightarrow> Inl e
            | Inr (name, T, arr) \<Rightarrow>
                readMembers fs (npz\<lparr>arrays := (arrays npz)(name \<mapsto> (T, arr))\<rparr>)))"

definition ReadNPZFile :: "zipEntry list \<Rightarrow> error + NPZFile" where
  "ReadNPZFile files = readMembers files NewNPZFile"

section \<open>\<open>ToCsv\<close> (csv.go)\<close>

text \<open>
  \<open>fmt.Sprintf("%v", val)\<close>: booleans and integers print as Go prints them; the text of
  a float is left to the parameter \<open>ff\<close>.
\<close>

fun Sprintf_v :: "(Value \<Rightarrow> string) \<Rightarrow> Value \<Rightarrow> string" where
  "Sprintf_v ff (VBool b) = (if b then ''true'' else ''false'')"
| "Sprintf_v ff (VInt8 w) = FormatInt (sint w)"
| "Sprintf_v ff (VInt16 w) = FormatInt (sint w)"
| "Sprintf_v ff (VInt32 w) = FormatInt (sint w)"
| "Sprintf_v ff (VInt64 w) = FormatInt (sint w)"
| "Sprintf_v ff (VUint8 w) = FormatInt (uint w)"
| "Sprintf_v ff (VUint16 w) = FormatInt (uint w)"
| "Sprintf_v ff (VUint32 w) = FormatInt (uint w)"
| "Sprintf_v ff (VUint64 w) = FormatInt (uint w)"
| "Sprintf_v ff (VFloat32 w) = ff (VFloat32 w)"
| "Sprintf_v ff (VFloat64 w) = ff (VFloat64 w)"

text \<open>
  The index of the element at row \<open>r\<close> and column \<open>c\<close>, computed in \<open>int\<close> as the source
  does: \<open>c*rows + r\<close> in Fortran order, \<open>r*cols + c\<close> otherwise.
\<close>

definition cellIndex :: "bool \<Rightarrow> goint \<Rightarrow> goint \<Rightarrow> nat \<Rightarrow> nat \<Rightarrow> int" where
  "cellIndex fortran rows cols r c =
     sint (if fortran then (of_nat c :: goint) * rows + of_nat r
           else (of_nat r :: goint) * cols + of_nat c)"

text \<open>
  The inner loop over the columns \<open>cs\<close> still to fill: \<open>arr.Data[idx]\<close> panics when the
  index is out of range.
\<close>

fun rowCells :: "(Value \<Rightarrow> string) \<Rightarrow> Value list \<Rightarrow> (nat \<Rightarrow> int) \<Rightarrow> nat list \<Rightarrow> error + string list"
  where
  "rowCells ff data idx [] = Inr []"
| "rowCells ff data idx (c # cs) =
     (if idx c < 0 \<or> int (length data) \<le> idx c then Inl (Panic ''index out of range'')
      else (case rowCells ff data idx cs of
              Inl e \<Rightarrow> Inl e
            | Inr rest \<Rightarrow> Inr (Sprintf_v ff (data ! nat (idx c)) # rest)))"

text \<open>
  The outer loop over the rows \<open>rs\<close> still to write. The result is the list of records
  handed to the CSV writer, in order, and the error or panic that ended the loop, if any.
  \<open>make([]string, cols)\<close> panics for a negative \<open>cols\<close>.
\<close>

fun writeRows :: "(Value \<Rightarrow> string) \<Rightarrow> Array \<Rightarrow> goint \<Rightarrow> goint \<Rightarrow> nat list
    \<Rightarrow> string list list \<times> error option" where
  "writeRows ff arr rows cols [] = ([], None)"
| "writeRows ff arr rows cols (r # rs) =
     (if sint cols < 0 then ([], Some (Panic ''makeslice: len out of range''))
      else (case rowCells ff (elems (Data arr)) (cellIndex (Fortran arr) rows cols r)
                   [0..<nat (sint cols)] of
              Inl e \<Rightarrow> ([], Some e)
            | Inr record \<Rightarrow>
                (case writeRows ff arr rows cols rs of
                   (out, e) \<Rightarrow> (record # out, e))))"

text \<open>
  \<open>ToCsv\<close> with a file that can be created and a writer that does not fail: the records
  written and the error returned.
\<close>

definition ToCsv :: "(Value \<Rightarrow> string) \<Rightarrow> Array \<Rightarrow> string list list \<times> error option" where
  "ToCsv ff arr =
     (let shape = elems (Shape arr); dimensions = length shape
      in if dimensions = 0 \<or> (dimensions = 1 \<and> shape ! 0 = 0) then ([], None)
         else if dimensions = 1 then ([map (Sprintf_v ff) (elems (Data arr))], None)
         else if dimensions = 2 then
           writeRows ff arr (shape ! 0) (shape ! 1) [0..<nat (sint (shape ! 0))]
         else ([], Some UnsupportedDimensions))"

section \<open>Auxiliary notions for the proofs\<close>

text \<open>The text between the parentheses of the shape tuple, before any trailing comma.\<close>

fun joinDims :: "goint list \<Rightarrow> string" where
  "joinDims [] = []"
| "joinDims [d] = Itoa d"
| "joinDims (d # ds) = Itoa d @ '', '' @ joinDims ds"

definition header_char :: "char \<Rightarrow> bool" where
  "header_char c = (c \<noteq> newline \<and> c \<noteq> CHR ''}'' \<and> c \<noteq> CHR ''{'')"


section \<open>Basic facts\<close>

lemmas DType_defs = Bool_def Int8_def Int16_def Int32_def Int64_def Uint8_def
  Uint16_def Uint32_def Uint64_def Float32_def Float64_def


lemma digit_char_is_digit: "k < 10 \<Longrightarrow> is_digit (digit_char k)"
  unfolding is_digit_def digit_char_def by (rule nth_mem) simp

lemma digits_all_digit: "list_all is_digit (digits n)"
proof (induction n rule: digits.induct)
  case (1 n)
  show ?case
  proof (cases "n < 10")
    case True
    then show ?thesis by (subst digits.simps) (simp add: digit_char_is_digit)
  next
    case False
    with 1 show ?thesis by (subst digits.simps) (simp add: digit_char_is_digit)
  qed
qed

lemma digits_not_Nil: "digits n \<noteq> []"
  by (subst digits.simps) simp

lemma is_digit_iff: "is_digit c \<longleftrightarrow> c \<in> {CHR ''0'', CHR ''1'', CHR ''2'', CHR ''3'', CHR ''4'', CHR ''5'', CHR ''6'', CHR ''7'', CHR ''8'', CHR ''9''}"
  by (auto simp: is_digit_def)

lemma Itoa_chars: "c \<in> set (Itoa d) \<Longrightarrow> is_digit c \<or> c = CHR ''-''"
  using digits_all_digit[of "nat (sint d)"] digits_all_digit[of "nat (- sint d)"]
  by (auto simp: Itoa_def FormatInt_def list_all_iff split: if_splits)

lemma Itoa_not_Nil: "Itoa d \<noteq> []"
  by (simp add: Itoa_def FormatInt_def digits_not_Nil)


lemma shapeLoop_eq:
  "shapeLoop i ds s = s @ (if ds = [] then [] else (if i > 0 then '', '' else []) @ joinDims ds)"
proof (induction ds arbitrary: i s)
  case Nil
  then show ?case by simp
next
  case (Cons d ds)
  have "shapeLoop i (d # ds) s = shapeLoop (i + 1) ds ((if i > 0 then s @ '', '' else s) @ Itoa d)"
    by simp
  also have "\<dots> = ((if i > 0 then s @ '', '' else s) @ Itoa d)
      @ (if ds = [] then [] else (if i + 1 > 0 then '', '' else []) @ joinDims ds)"
    by (rule Cons.IH)
  finally show ?case by (cases ds) auto
qed

lemma genShapeStr_Some:
  "genShapeStr (Some ds) = ''('' @ joinDims ds @ (if length ds \<le> 1 then '','' else []) @ '')''"
  by (cases ds; cases "tl ds") (auto simp: genShapeStr_def elems_def len_def shapeLoop_eq Let_def)

lemma genShapeStr_None: "genShapeStr None = ''(,)''"
  by (simp add: genShapeStr_def elems_def len_def)


lemma joinDims_chars: "c \<in> set (joinDims ds) \<Longrightarrow> is_digit c \<or> c = CHR ''-'' \<or> c = CHR '','' \<or> c = CHR '' ''"
  by (induction ds rule: joinDims.induct) (auto dest: Itoa_chars)

lemma genShapeStr_chars: "c \<in> set (genShapeStr shp) \<Longrightarrow> header_char c"
  by (cases shp) (auto simp: genShapeStr_None genShapeStr_Some header_char_def newline_def is_digit_iff dest!: joinDims_chars split: if_splits)

lemma genDtypeStr_chars: "c \<in> set (genDtypeStr d) \<Longrightarrow> header_char c"
  by (auto simp: genDtypeStr_def header_char_def newline_def split: if_splits)

lemma generateHeader_shape:
  "\<exists>body. generateHeader arr = CHR ''{'' # body @ ''}'' \<and> (\<forall>c\<in>set body. header_char c)"
  unfolding generateHeader_def
  by (rule exI[of _ "[CHR 0x27] @ ''descr'' @ [CHR 0x27] @ '': '' @ [CHR 0x27] @ genDtypeStr (DType arr)
       @ [CHR 0x27] @ '', '' @ [CHR 0x27] @ ''fortran_order'' @ [CHR 0x27] @ '': ''
       @ (if Fortran arr then ''True'' else ''False'')
       @ '', '' @ [CHR 0x27] @ ''shape'' @ [CHR 0x27] @ '': '' @ genShapeStr (Shape arr) @ '', ''"])
     (auto simp: header_char_def newline_def dest: genShapeStr_chars genDtypeStr_chars)

lemma paddingLen_range: "1 \<le> paddingLen h \<and> paddingLen h \<le> 16"
  unfolding paddingLen_def Let_def by presburger

lemma paddingLen_eq: "paddingLen h = 16 - ((10 + int (length h)) mod 16)"
  unfolding paddingLen_def Let_def by presburger

lemma length_padHeader: "int (length (padHeader h)) = int (length h) + paddingLen h"
  using paddingLen_range[of h] by (simp add: padHeader_def)

lemma padHeader_aligned: "(10 + length (padHeader h)) mod 16 = 0"
proof -
  have "(10 + int (length (padHeader h))) mod 16 = 0"
    unfolding length_padHeader paddingLen_eq by presburger
  then have "int ((10 + length (padHeader h)) mod 16) = 0"
    by (simp add: zmod_int)
  then show ?thesis by simp
qed

lemma foldl_mult_word:
  "foldl (\<lambda>t dim. t * dim) a shape = a * (word_of_int (prod_list (map sint shape)) :: goint)"
  by (induction shape arbitrary: a) (simp_all add: mult.assoc)

lemma sint_totalElements:
  "sint (totalElements shape) = signed_take_bit 63 (prod_list (map sint shape))"
  by (simp add: totalElements_def foldl_mult_word sint_sbintrunc')


section \<open>Facts about the loops of \<open>ToCsv\<close>\<close>

lemma rowCells_in_range:
  "\<forall>c\<in>set cs. 0 \<le> idx c \<and> idx c < int (length data) \<Longrightarrow>
   rowCells ff data idx cs = Inr (map (\<lambda>c. Sprintf_v ff (data ! nat (idx c))) cs)"
  by (induction cs) simp_all

lemma writeRows_in_range:
  assumes "0 \<le> sint cols"
    and "\<forall>r\<in>set rs. \<forall>c<nat (sint cols).
           0 \<le> cellIndex (Fortran arr) rows cols r c
           \<and> cellIndex (Fortran arr) rows cols r c < int (length (elems (Data arr)))"
  shows "writeRows ff arr rows cols rs =
     (map (\<lambda>r. map (\<lambda>c. Sprintf_v ff (elems (Data arr) ! nat (cellIndex (Fortran arr) rows cols r c)))
                [0..<nat (sint cols)]) rs, None)"
  using assms
proof (induction rs)
  case Nil
  then show ?case by simp
next
  case (Cons r rs)
  have "rowCells ff (elems (Data arr)) (cellIndex (Fortran arr) rows cols r) [0..<nat (sint cols)]
      = Inr (map (\<lambda>c. Sprintf_v ff (elems (Data arr) ! nat (cellIndex (Fortran arr) rows cols r c)))
                [0..<nat (sint cols)])"
    using Cons.prems by (intro rowCells_in_range) simp
  moreover have "writeRows ff arr rows cols rs =
     (map (\<lambda>r. map (\<lambda>c. Sprintf_v ff (elems (Data arr) ! nat (cellIndex (Fortran arr) rows cols r c)))
                [0..<nat (sint cols)]) rs, None)"
    using Cons.prems by (intro Cons.IH) simp_all
  ultimately show ?case using Cons.prems(1) by simp
qed

lemma sint_small:
  fixes k :: int
  assumes "0 \<le> k" "k < 2 ^ 63"
  shows "sint (word_of_int k :: goint) = k"
  using assms by (simp add: sint_sbintrunc' signed_take_bit_int_eq_self)

lemma index_bound:
  fixes r c R C :: nat
  assumes "r < R" "c < C"
  shows "r * C + c < R * C"
proof -
  have "r * C + c < r * C + C" using assms by simp
  also have "\<dots> = (r + 1) * C" by simp
  also have "\<dots> \<le> R * C" using assms by (intro mult_le_mono1) simp
  finally show ?thesis .
qed

lemma cellIndex_eq:
  assumes "0 \<le> sint R" "0 \<le> sint C" "sint R * sint C < 2 ^ 63" "r < nat (sint R)" "c < nat (sint C)"
  shows "cellIndex f R C r c = int (if f then c * nat (sint R) + r else r * nat (sint C) + c)"
    and "(if f then c * nat (sint R) + r else r * nat (sint C) + c) < nat (sint R) * nat (sint C)"
proof -
  let ?R = "nat (sint R)" and ?C = "nat (sint C)"
  have RC: "int (?R * ?C) = sint R * sint C" using assms by simp
  have b1: "r * ?C + c < ?R * ?C" using assms by (intro index_bound)
  have b2: "c * ?R + r < ?R * ?C" using index_bound[of c ?C r ?R] assms by (simp add: mult.commute)
  show "(if f then c * ?R + r else r * ?C + c) < ?R * ?C" using b1 b2 by simp
  have R: "R = word_of_int (int ?R)" and C: "C = word_of_int (int ?C)" using assms by simp_all
  have e1: "(of_nat r :: goint) * C + of_nat c = word_of_int (int (r * ?C + c))"
    by (subst C) (simp add: word_of_int_hom_syms)
  have e2: "(of_nat c :: goint) * R + of_nat r = word_of_int (int (c * ?R + r))"
    by (subst R) (simp add: word_of_int_hom_syms)
  have l1: "int (r * ?C + c) < 2 ^ 63" using b1 RC assms(3) by linarith
  have l2: "int (c * ?R + r) < 2 ^ 63" using b2 RC assms(3) by linarith
  show "cellIndex f R C r c = int (if f then c * ?R + r else r * ?C + c)"
    unfolding cellIndex_def using sint_small[OF _ l1] sint_small[OF _ l2]
    by (simp only: e1 e2 split: if_splits) simp
qed

section \<open>Facts about the envelope\<close>

lemma LE_Uint16_Put: "LE_Uint16 (LE_PutUint16 w) = w"
proof (rule bit_word_eqI)
  fix n assume "n < LENGTH(16)"
  then consider "n < 8" | "8 \<le> n \<and> n < 16" by fastforce
  then show "bit (LE_Uint16 (LE_PutUint16 w)) n = bit w n"
    by cases (auto simp: LE_PutUint16_def bit_simps)
qed

lemma LE_Uint32_Put: "LE_Uint32 (LE_PutUint32 w) = w"
proof (rule bit_word_eqI)
  fix n assume "n < LENGTH(32)"
  then consider "n < 8" | "8 \<le> n \<and> n < 16" | "16 \<le> n \<and> n < 24" | "24 \<le> n \<and> n < 32"
    by fastforce
  then show "bit (LE_Uint32 (LE_PutUint32 w)) n = bit w n"
    by cases (auto simp: LE_PutUint32_def bit_simps)
qed

lemma LE_Uint64_Put: "LE_Uint64 (LE_PutUint64 w) = w"
proof (rule bit_word_eqI)
  fix n assume "n < LENGTH(64)"
  then consider "n < 8" | "8 \<le> n \<and> n < 16" | "16 \<le> n \<and> n < 24" | "24 \<le> n \<and> n < 32"
    | "32 \<le> n \<and> n < 40" | "40 \<le> n \<and> n < 48" | "48 \<le> n \<and> n < 56" | "56 \<le> n \<and> n < 64"
    by fastforce
  then show "bit (LE_Uint64 (LE_PutUint64 w)) n = bit w n"
    by cases (auto simp: LE_PutUint64_def bit_simps)
qed

lemma length_LE_Put [simp]:
  "length (LE_PutUint16 a) = 2" "length (LE_PutUint32 b) = 4" "length (LE_PutUint64 c) = 8"
  by (simp_all add: LE_PutUint16_def LE_PutUint32_def LE_PutUint64_def)

lemma ReadFull_append: "ReadFull (length a) (a @ b) = Inr (a, b)"
  by (cases a) (simp_all add: ReadFull_def)

lemma ReadFull_enough: "n \<le> length r \<Longrightarrow> ReadFull n r = Inr (take n r, drop n r)"
  by (cases r) (auto simp: ReadFull_def)

lemma length_magic [simp]: "length magic = 6"
  by (simp add: magic_def)

lemma ReadFull_magic: "ReadFull 6 (magic @ r) = Inr (magic, r)"
  using ReadFull_append [of magic r] by simp

lemma ReadFull_one: "ReadFull 1 (b # r) = Inr ([b], r)" "ReadFull (Suc 0) (b # r) = Inr ([b], r)"
  using ReadFull_append [of "[b]" r] by simp_all

lemma readHeaderLen_v1: "readHeaderLen 1 (LE_PutUint16 n @ r) = Inr (n, r)"
  using ReadFull_append [of "LE_PutUint16 n" r] by (simp add: readHeaderLen_def LE_Uint16_Put)

lemma readHeaderLen_v2: "readHeaderLen 2 (LE_PutUint32 L @ r) = Inr (ucast L, r)"
  using ReadFull_append [of "LE_PutUint32 L" r] by (simp add: readHeaderLen_def LE_Uint32_Put)

lemma Read_envelope:
  "Read T (magic @ [major, minor] @ r3) =
     (case readHeaderLen major r3 of
        Inl (Some e) \<Rightarrow> Inl (Wrapped ''failed to read header length'' (IOError e))
      | Inl None \<Rightarrow> Inl (UnsupportedVersion major minor)
      | Inr (headerLen, r4) \<Rightarrow>
     (case ReadFull (unat headerLen) r4 of
        Inl e \<Rightarrow> Inl (Wrapped ''failed to read header'' (IOError e))
      | Inr (headerBytes, r5) \<Rightarrow>
     (case parseHeader (string_of_bytes headerBytes) of
        Inl e \<Rightarrow> Inl (wrap ''failed to parse header'' e)
      | Inr hdr \<Rightarrow>
     (case readData T r5 hdr of
        Inl e \<Rightarrow> Inl (wrap ''failed to read data'' e)
      | Inr data \<Rightarrow>
          Inr \<lparr>Data = Some data, Shape = Some (hShape hdr), DType = hDType hdr,
               Fortran = hFortran hdr\<rparr>))))"
  by (simp add: Read_def ReadFull_magic ReadFull_one split: sum.splits option.splits)

lemma peekHeader_envelope:
  "length mg = 6 \<Longrightarrow> peekHeader fname (mg @ [major, minor] @ r3) =
     (case readHeaderLen major r3 of
        Inl (Some e) \<Rightarrow> Inl (Wrapped (''failed to read header length from '' @ fname) (IOError e))
      | Inl None \<Rightarrow> Inl (UnsupportedVersionIn fname major minor)
      | Inr (headerLen, r4) \<Rightarrow>
     (case ReadFull (unat headerLen) r4 of
        Inl e \<Rightarrow> Inl (Wrapped (''failed to read header from '' @ fname) (IOError e))
      | Inr (headerBytes, r5) \<Rightarrow>
     (case parseHeader (string_of_bytes headerBytes) of
        Inl e \<Rightarrow> Inl (wrap (''failed to parse header from '' @ fname) e)
      | Inr hdr \<Rightarrow> Inr hdr)))"
  using ReadFull_append [of mg "[major, minor] @ r3"]
  by (simp add: peekHeader_def ReadFull_one split: sum.splits option.splits)

section \<open>Facts about \<open>parseHeader\<close> and \<open>Read\<close>\<close>

lemma shape_class_not_minus: "shape_class c \<Longrightarrow> c \<noteq> CHR ''-'' \<and> c \<noteq> CHR ''+''"
  by (auto simp: shape_class_def is_digit_def is_space_def)

lemma matchShapeAt_class: "matchShapeAt s = Some t \<Longrightarrow> \<forall>c\<in>set t. shape_class c"
  by (auto simp: matchShapeAt_def split: option.splits list.splits if_splits dest: set_takeWhileD)

lemma findFirst_Some: "findFirst m s = Some t \<Longrightarrow> \<exists>s'. m s' = Some t"
  by (induction s) (auto split: option.splits)

lemma Split_not_Nil: "Split sep s \<noteq> []"
  by (induction s) (auto split: list.splits)

lemma Split_chars: "p \<in> set (Split sep s) \<Longrightarrow> set p \<subseteq> set s"
proof (induction s arbitrary: p)
  case Nil
  then show ?case by simp
next
  case (Cons c cs)
  show ?case
  proof (cases "c = sep")
    case True
    with Cons show ?thesis by auto
  next
    case False
    obtain q qs where q: "Split sep cs = q # qs"
      using Split_not_Nil [of sep cs] by (cases "Split sep cs") auto
    with False Cons.prems have "p = c # q \<or> p \<in> set qs" by auto
    then show ?thesis
      using Cons.IH [of q] Cons.IH [of p] q by auto
  qed
qed

lemma TrimSpace_chars: "set (TrimSpace s) \<subseteq> set s"
proof -
  have "set (TrimSpace s) \<subseteq> set (rev (dropWhile isSpace s))"
    unfolding TrimSpace_def by (auto dest: set_dropWhileD)
  also have "\<dots> \<subseteq> set s" by (auto dest: set_dropWhileD)
  finally show ?thesis .
qed

lemma digit_val_range: "is_digit c \<Longrightarrow> 0 \<le> digit_val c \<and> digit_val c \<le> 9"
  by (auto simp: is_digit_def digit_val_def)

lemma foldl_digits_nonneg:
  "list_all is_digit s \<Longrightarrow> 0 \<le> n \<Longrightarrow> 0 \<le> foldl (\<lambda>n c. n * 10 + digit_val c) n s"
proof (induction s arbitrary: n)
  case Nil
  then show ?case by simp
next
  case (Cons c s)
  then have "0 \<le> n * 10 + digit_val c" using digit_val_range [of c] by simp
  with Cons show ?case by simp
qed

lemma parse_digits_nonneg: "list_all is_digit s \<Longrightarrow> 0 \<le> parse_digits s"
  unfolding parse_digits_def by (rule foldl_digits_nonneg) simp_all

lemma Atoi_nonneg:
  assumes "Atoi s = Some d" and "CHR ''-'' \<notin> set s"
  shows "0 \<le> sint d"
proof -
  have notneg: "\<not> (s \<noteq> [] \<and> hd s = CHR ''-'')"
    using assms(2) by (cases s) auto
  define body where "body = (if s \<noteq> [] \<and> (hd s = CHR ''-'' \<or> hd s = CHR ''+'') then tl s else s)"
  from assms(1) notneg have dig: "list_all is_digit body" and lt: "parse_digits body < 2 ^ 63"
    and d: "d = of_int (parse_digits body)"
    unfolding Atoi_def Let_def body_def by (auto split: if_splits)
  from parse_digits_nonneg [OF dig] lt show ?thesis
    unfolding d by (simp add: sint_small)
qed

lemma parseShapeParts_nonneg:
  "parseShapeParts parts acc = Inr shape \<Longrightarrow> \<forall>d\<in>set acc. 0 \<le> sint d \<Longrightarrow>
   \<forall>p\<in>set parts. CHR ''-'' \<notin> set p \<Longrightarrow> \<forall>d\<in>set shape. 0 \<le> sint d"
proof (induction parts arbitrary: acc)
  case Nil
  then show ?case by simp
next
  case (Cons part rest)
  have m: "CHR ''-'' \<notin> set (TrimSpace part)"
    using Cons.prems(3) TrimSpace_chars [of part] by auto
  show ?case
  proof (cases "TrimSpace part = []")
    case True
    with Cons show ?thesis by simp
  next
    case False
    with Cons.prems(1) obtain dim where dim: "Atoi (TrimSpace part) = Some dim"
      and r: "parseShapeParts rest (acc @ [dim]) = Inr shape"
      by (auto simp: Let_def split: option.splits)
    from Atoi_nonneg [OF dim m] Cons.prems(2) have "\<forall>d\<in>set (acc @ [dim]). 0 \<le> sint d" by simp
    from Cons.IH [OF r this] Cons.prems(3) show ?thesis by simp
  qed
qed

lemma parseHeader_InrD:
  assumes "parseHeader h = Inr hdr"
  obtains dictStr shapeStr dtypeStr fortranStr where
    "findDict h = Some dictStr"
    "findFirst matchShapeAt dictStr = Some shapeStr"
    "parseShapeParts (Split (CHR '','') shapeStr) [] = Inr (hShape hdr)"
    "findFirst matchDescrAt dictStr = Some dtypeStr"
    "2 \<le> length dtypeStr"
    "dtypeOfTypeChar (drop 1 dtypeStr) = Some (hDType hdr)"
    "findFirst matchFortranAt dictStr = Some fortranStr"
    "hFortran hdr = (fortranStr = ''True'')"
proof -
  obtain dictStr where d: "findDict h = Some dictStr"
    using assms by (cases "findDict h") (simp_all add: parseHeader_def)
  obtain shapeStr where s: "findFirst matchShapeAt dictStr = Some shapeStr"
    using assms d by (cases "findFirst matchShapeAt dictStr") (simp_all add: parseHeader_def)
  obtain shape where p: "parseShapeParts (Split (CHR '','') shapeStr) [] = Inr shape"
    using assms d s
    by (cases "parseShapeParts (Split (CHR '','') shapeStr) []") (simp_all add: parseHeader_def)
  obtain dtypeStr where t: "findFirst matchDescrAt dictStr = Some dtypeStr"
    using assms d s p by (cases "findFirst matchDescrAt dictStr") (simp_all add: parseHeader_def)
  have l: "2 \<le> length dtypeStr"
    using assms d s p t by (cases "2 \<le> length dtypeStr") (simp_all add: parseHeader_def)
  obtain dtype where c: "dtypeOfTypeChar (drop 1 dtypeStr) = Some dtype"
    using assms d s p t l
    by (cases "dtypeOfTypeChar (drop 1 dtypeStr)") (simp_all add: parseHeader_def)
  obtain fortranStr where f: "findFirst matchFortranAt dictStr = Some fortranStr"
    using assms d s p t l c
    by (cases "findFirst matchFortranAt dictStr") (simp_all add: parseHeader_def)
  have "hdr = \<lparr>hShape = shape, hDType = dtype, hFortran = (fortranStr = ''True'')\<rparr>"
    using assms d s p t l c f by (simp add: parseHeader_def)
  then have "hShape hdr = shape" "hDType hdr = dtype" "hFortran hdr = (fortranStr = ''True'')"
    by simp_all
  with d s p t l c f that show thesis by blast
qed

lemma Read_InrD:
  assumes "Read T r = Inr arr"
  obtains headerBytes r5 hdr data where
    "take 6 r = magic"
    "parseHeader (string_of_bytes headerBytes) = Inr hdr"
    "readData T r5 hdr = Inr data"
    "arr = \<lparr>Data = Some data, Shape = Some (hShape hdr), DType = hDType hdr,
           Fortran = hFortran hdr\<rparr>"
proof -
  obtain mg r1 where a: "ReadFull 6 r = Inr (mg, r1)"
    using assms by (cases "ReadFull 6 r") (auto simp: Read_def)
  have m: "mg = magic"
    using assms a by (cases "mg = magic") (simp_all add: Read_def)
  have tk: "take 6 r = magic"
    using a m by (auto simp: ReadFull_def split: if_splits)
  obtain major r2 where b: "ReadFull 1 r1 = Inr (major, r2)"
    using assms a m by (cases "ReadFull 1 r1") (auto simp: Read_def)
  obtain minor r3 where c: "ReadFull 1 r2 = Inr (minor, r3)"
    using assms a m b by (cases "ReadFull 1 r2") (auto simp: Read_def)
  obtain headerLen r4 where d: "readHeaderLen (hd major) r3 = Inr (headerLen, r4)"
    using assms a m b c
    by (cases "readHeaderLen (hd major) r3") (auto simp: Read_def split: option.splits)
  obtain headerBytes r5 where e: "ReadFull (unat headerLen) r4 = Inr (headerBytes, r5)"
    using assms a m b c d by (cases "ReadFull (unat headerLen) r4") (auto simp: Read_def)
  obtain hdr where f: "parseHeader (string_of_bytes headerBytes) = Inr hdr"
    using assms a m b c d e
    by (cases "parseHeader (string_of_bytes headerBytes)") (auto simp: Read_def)
  obtain data where g: "readData T r5 hdr = Inr data"
    using assms a m b c d e f by (cases "readData T r5 hdr") (auto simp: Read_def)
  have "arr = \<lparr>Data = Some data, Shape = Some (hShape hdr), DType = hDType hdr,
           Fortran = hFortran hdr\<rparr>"
    using assms a m b c d e f g by (simp add: Read_def)
  with tk f g that show thesis by blast
qed

lemma parseHeader_shape_nonneg:
  assumes "parseHeader h = Inr hdr"
  shows "\<forall>d\<in>set (hShape hdr). 0 \<le> sint d"
proof -
  from assms obtain dictStr shapeStr where
    s: "findFirst matchShapeAt dictStr = Some shapeStr"
    and p: "parseShapeParts (Split (CHR '','') shapeStr) [] = Inr (hShape hdr)"
    by (rule parseHeader_InrD)
  from findFirst_Some [OF s] obtain s' where "matchShapeAt s' = Some shapeStr" ..
  then have cls: "\<forall>c\<in>set shapeStr. shape_class c" by (rule matchShapeAt_class)
  have "\<forall>p\<in>set (Split (CHR '','') shapeStr). CHR ''-'' \<notin> set p"
  proof (intro ballI notI)
    fix p assume "p \<in> set (Split (CHR '','') shapeStr)" and m: "CHR ''-'' \<in> set p"
    from Split_chars [OF this(1)] m have "CHR ''-'' \<in> set shapeStr" by (rule subsetD)
    with cls shape_class_not_minus show False by blast
  qed
  from parseShapeParts_nonneg [OF p _ this] show ?thesis by simp
qed

section \<open>Facts about the container decode\<close>

lemma dtypeOfTypeChar_supported: "dtypeOfTypeChar s = Some d \<Longrightarrow> d \<in> set supported_dtypes"
  by (simp add: dtypeOfTypeChar_def supported_dtypes_def split: if_splits)

lemma typeOfDType_supported: "d \<in> set supported_dtypes \<Longrightarrow> typeOfDType d \<noteq> None"
  by (auto simp: typeOfDType_def supported_dtypes_def)

lemma parseHeader_dtype_supported: "parseHeader h = Inr hdr \<Longrightarrow> hDType hdr \<in> set supported_dtypes"
  by (erule parseHeader_InrD) (rule dtypeOfTypeChar_supported)

lemma peekHeader_InrD:
  assumes "peekHeader fname r = Inr hdr"
  obtains headerBytes where "6 \<le> length r" "parseHeader (string_of_bytes headerBytes) = Inr hdr"
proof -
  obtain mg r1 where a: "ReadFull 6 r = Inr (mg, r1)"
    using assms by (cases "ReadFull 6 r") (auto simp: peekHeader_def)
  have len: "6 \<le> length r"
    using a by (auto simp: ReadFull_def split: if_splits)
  obtain major r2 where b: "ReadFull 1 r1 = Inr (major, r2)"
    using assms a by (cases "ReadFull 1 r1") (auto simp: peekHeader_def)
  obtain minor r3 where c: "ReadFull 1 r2 = Inr (minor, r3)"
    using assms a b by (cases "ReadFull 1 r2") (auto simp: peekHeader_def)
  obtain headerLen r4 where d: "readHeaderLen (hd major) r3 = Inr (headerLen, r4)"
    using assms a b c
    by (cases "readHeaderLen (hd major) r3") (auto simp: peekHeader_def split: option.splits)
  obtain headerBytes r5 where e: "ReadFull (unat headerLen) r4 = Inr (headerBytes, r5)"
    using assms a b c d by (cases "ReadFull (unat headerLen) r4") (auto simp: peekHeader_def)
  have "parseHeader (string_of_bytes headerBytes) = Inr hdr"
    using assms a b c d e
    by (cases "parseHeader (string_of_bytes headerBytes)") (auto simp: peekHeader_def)
  with len that show thesis by blast
qed

lemma Read_bad_magic:
  assumes "take 6 r \<noteq> magic"
  shows "Read T r = (if length r < 6
                     then Inl (Wrapped ''failed to read magic string''
                                 (IOError (if r = [] then EOF else ErrUnexpectedEOF)))
                     else Inl (InvalidMagic (take 6 r)))"
  using assms by (simp add: Read_def ReadFull_def)

lemma readMembers_fails:
  "f \<in> set files \<Longrightarrow> \<not> IsDir f \<Longrightarrow> readMember f = Inl e \<Longrightarrow> \<exists>e'. readMembers files npz = Inl e'"
proof (induction files arbitrary: npz)
  case Nil
  then show ?case by simp
next
  case (Cons g gs)
  show ?case
  proof (cases "g = f")
    case True
    with Cons.prems show ?thesis by simp
  next
    case False
    with Cons.prems have "f \<in> set gs" by simp
    from Cons.IH [OF this Cons.prems(2,3)] show ?thesis
      by (cases "readMember g") (auto split: prod.splits)
  qed
qed

section \<open>Facts about the dtype switches\<close>

lemma genDtypeStr_default: "d \<notin> set supported_dtypes \<Longrightarrow> genDtypeStr d = ''<f8''"
  by (simp add: genDtypeStr_def supported_dtypes_def)

lemma genDtypeStr_Float64: "genDtypeStr Float64 = ''<f8''"
  by (simp add: genDtypeStr_def DType_defs)

lemma generateHeader_default:
  "DType arr \<notin> set supported_dtypes \<Longrightarrow> generateHeader arr = generateHeader (arr\<lparr>DType := Float64\<rparr>)"
  by (simp add: generateHeader_def genDtypeStr_default genDtypeStr_Float64)

lemma Write_default:
  assumes "DType arr \<notin> set supported_dtypes" "DType arr \<noteq> []"
  shows "Write arr = Write (arr\<lparr>DType := Float64\<rparr>)"
proof -
  have "Float64 \<noteq> []" by (simp add: Float64_def)
  with assms(2) generateHeader_default [OF assms(1)] show ?thesis
    by (simp add: Write_def)
qed

lemma parseHeader_unknown_dtype:
  assumes "findDict h = Some dict" "findFirst matchDescrAt dict = Some tok"
    and "length tok < 2 \<or> dtypeOfTypeChar (drop 1 tok) = None"
  shows "\<exists>e. parseHeader h = Inl e"
proof (cases "parseHeader h")
  case (Inl e)
  then show ?thesis by blast
next
  case (Inr hdr)
  then obtain dictStr dtypeStr where "findDict h = Some dictStr"
    "findFirst matchDescrAt dictStr = Some dtypeStr" "2 \<le> length dtypeStr"
    "dtypeOfTypeChar (drop 1 dtypeStr) = Some (hDType hdr)"
    by (rule parseHeader_InrD)
  with assms show ?thesis by auto
qed

lemma parseHeader_unknown_dtype_error:
  assumes "findDict h = Some dict" "findFirst matchShapeAt dict = Some s"
    and "parseShapeParts (Split (CHR '','') s) [] = Inr shape"
    and "findFirst matchDescrAt dict = Some tok"
    and "length tok < 2 \<or> dtypeOfTypeChar (drop 1 tok) = None"
  shows "parseHeader h = Inl (if 2 \<le> length tok then UnsupportedDType tok else InvalidDTypeFormat tok)"
  using assms by (auto simp: parseHeader_def)

section \<open>Header padding\<close>

text \<open>
  C2. For every array that \<open>Write\<close> accepts, the bytes written are the magic string, the
  version 1.0, the two-byte length and then the padded header text
  \<open>padHeader (generateHeader arr)\<close>; ten plus the length of that text is a multiple of 16;
  the padding is at least one byte; the text is the generated header, which ends with a
  closing brace and contains no newline, followed only by spaces and then one newline.
\<close>

theorem Write_header_padding:
  assumes "Write arr = Inr out"
  shows "(\<exists>payload. out = magic @ [1, 0]
            @ LE_PutUint16 (of_nat (length (padHeader (generateHeader arr))))
            @ bytes_of_string (padHeader (generateHeader arr)) @ payload)
       \<and> (10 + length (padHeader (generateHeader arr))) mod 16 = 0
       \<and> 1 \<le> paddingLen (generateHeader arr)
       \<and> padHeader (generateHeader arr)
           = generateHeader arr @ replicate (nat (paddingLen (generateHeader arr) - 1)) (CHR '' '') @ [newline]
       \<and> length (padHeader (generateHeader arr)) = length (generateHeader arr) + nat (paddingLen (generateHeader arr))
       \<and> newline \<notin> set (generateHeader arr)
       \<and> last (generateHeader arr) = CHR ''}''"
proof -
  obtain body where b: "generateHeader arr = CHR ''{'' # body @ ''}''" "\<forall>c\<in>set body. header_char c"
    using generateHeader_shape by blast
  have 1: "\<exists>payload. out = magic @ [1, 0]
            @ LE_PutUint16 (of_nat (length (padHeader (generateHeader arr))))
            @ bytes_of_string (padHeader (generateHeader arr)) @ payload"
    using assms by (auto simp: Write_def Let_def split: if_splits)
  have 2: "newline \<notin> set (generateHeader arr)"
    using b by (auto simp: header_char_def newline_def)
  have 3: "last (generateHeader arr) = CHR ''}''"
    using b by simp
  have 4: "length (padHeader (generateHeader arr)) = length (generateHeader arr) + nat (paddingLen (generateHeader arr))"
    using length_padHeader[of "generateHeader arr"] paddingLen_range[of "generateHeader arr"] by linarith
  have 5: "(10 + length (padHeader (generateHeader arr))) mod 16 = 0"
    by (rule padHeader_aligned)
  have 6: "1 \<le> paddingLen (generateHeader arr)"
    using paddingLen_range by blast
  have 7: "padHeader (generateHeader arr)
           = generateHeader arr @ replicate (nat (paddingLen (generateHeader arr) - 1)) (CHR '' '') @ [newline]"
    by (rule padHeader_def)
  from 1 2 3 4 5 6 7 show ?thesis by blast
qed

theorem Write_header_padding_witness:
  "Write \<lparr>Data = Some [VUint16 100, VUint16 200, VUint16 300], Shape = Some [3],
          DType = Uint16, Fortran = False\<rparr>
     = Inr [147, 78, 85, 77, 80, 89, 1, 0, 70, 0, 123, 39, 100, 101, 115, 99, 114,
      39, 58, 32, 39, 60, 117, 50, 39, 44, 32, 39, 102, 111, 114, 116, 114,
      97, 110, 95, 111, 114, 100, 101, 114, 39, 58, 32, 70, 97, 108, 115,
      101, 44, 32, 39, 115, 104, 97, 112, 101, 39, 58, 32, 40, 51, 44, 41,
      44, 32, 125, 32, 32, 32, 32, 32, 32, 32, 32, 32, 32, 32, 32, 10, 100,
      0, 200, 0, 44, 1]
   \<and> (10 + length (padHeader (generateHeader
          \<lparr>Data = Some [VUint16 100, VUint16 200, VUint16 300], Shape = Some [3],
           DType = Uint16, Fortran = False\<rparr>))) mod 16 = 0"
proof -
  have h: "Write \<lparr>Data = Some [VUint16 100, VUint16 200, VUint16 300], Shape = Some [3],
          DType = Uint16, Fortran = False\<rparr>
     = Inr [147, 78, 85, 77, 80, 89, 1, 0, 70, 0, 123, 39, 100, 101, 115, 99, 114,
      39, 58, 32, 39, 60, 117, 50, 39, 44, 32, 39, 102, 111, 114, 116, 114,
      97, 110, 95, 111, 114, 100, 101, 114, 39, 58, 32, 70, 97, 108, 115,
      101, 44, 32, 39, 115, 104, 97, 112, 101, 39, 58, 32, 40, 51, 44, 41,
      44, 32, 125, 32, 32, 32, 32, 32, 32, 32, 32, 32, 32, 32, 32, 10, 100,
      0, 200, 0, 44, 1]"
    by code_simp
  from Write_header_padding [OF h] h show ?thesis by blast
qed

section \<open>When \<open>Write\<close> fails\<close>

text \<open>
  C3, as amended. \<open>Write\<close> fails exactly when \<open>Data\<close> is nil, or \<open>Shape\<close> is nil, or
  \<open>DType\<close> is the empty string, or the length of \<open>Data\<close> differs from the product of the
  shape dimensions as the 64-bit \<open>int\<close> computes it (the product wrapped into the
  two's-complement range); in the last case, with the three fields present, the error is
  the data-length error naming both numbers.
\<close>

theorem Write_fails_iff:
  "((\<exists>e. Write arr = Inl e) \<longleftrightarrow>
      (Data arr = None \<or> Shape arr = None \<or> DType arr = []
       \<or> len (Data arr) \<noteq> signed_take_bit 63 (prod_list (map sint (elems (Shape arr))))))
   \<and> (Data arr \<noteq> None \<and> Shape arr \<noteq> None \<and> DType arr \<noteq> []
        \<and> len (Data arr) \<noteq> signed_take_bit 63 (prod_list (map sint (elems (Shape arr))))
      \<longrightarrow> Write arr = Inl (DataLengthMismatch (len (Data arr))
            (signed_take_bit 63 (prod_list (map sint (elems (Shape arr)))))))"
  by (simp add: Write_def sint_totalElements Let_def)

theorem Write_fails_iff_witness:
  "len (Data \<lparr>Data = Some [VInt32 5, VInt32 6], Shape = Some [2], DType = Int32, Fortran = False\<rparr>)
     = signed_take_bit 63 (prod_list (map sint (elems (Shape
         \<lparr>Data = Some [VInt32 5, VInt32 6], Shape = Some [2], DType = Int32, Fortran = False\<rparr>))))
   \<and> \<not> (\<exists>e. Write \<lparr>Data = Some [VInt32 5, VInt32 6], Shape = Some [2], DType = Int32,
                      Fortran = False\<rparr> = Inl e)
   \<and> Write \<lparr>Data = Some [VInt32 5], Shape = Some [2], DType = Int32, Fortran = False\<rparr>
       = Inl (DataLengthMismatch 1 2)"
  using Write_fails_iff [of "\<lparr>Data = Some [VInt32 5, VInt32 6], Shape = Some [2], DType = Int32,
                              Fortran = False\<rparr>"]
    Write_fails_iff [of "\<lparr>Data = Some [VInt32 5], Shape = Some [2], DType = Int32,
                              Fortran = False\<rparr>"]
  by (simp add: len_def elems_def Int32_def)

text \<open>
  The claim as first stated fails on a nil \<open>Data\<close>: its length, 0, is the product of the
  shape \<open>[0]\<close>, and \<open>Write\<close> returns an error all the same.
\<close>

theorem Write_nil_data_counterexample:
  "len (Data \<lparr>Data = None, Shape = Some [0], DType = Float64, Fortran = False\<rparr>)
     = prod_list (map sint (elems (Shape
         \<lparr>Data = None, Shape = Some [0], DType = Float64, Fortran = False\<rparr>)))
   \<and> Write \<lparr>Data = None, Shape = Some [0], DType = Float64, Fortran = False\<rparr>
       = Inl ArrayDataNil"
  by (simp add: Write_def len_def elems_def)

section \<open>An unrecognized dtype\<close>

text \<open>
  C4, as amended. On decode an unrecognized dtype is a hard failure and no default is
  substituted: every header that \<open>parseHeader\<close> accepts carries one of the eleven
  supported dtypes, and a header whose \<open>descr\<close> token is shorter than two characters or
  has type characters outside the eleven codes is rejected, with the invalid-format or the
  unsupported-dtype error when its shape field is well formed. On encode,
  \<open>generateHeader\<close> has a default: a \<open>DType\<close> outside the eleven is written as the token of
  float64, so \<open>Write\<close> treats an array with such a \<open>DType\<close>, when it is not the empty
  string, exactly as the same array with \<open>DType = Float64\<close>; the empty \<open>DType\<close> is
  rejected.
\<close>

theorem unrecognized_dtype_handling:
  "(\<forall>hdr. parseHeader h = Inr hdr \<longrightarrow> hDType hdr \<in> set supported_dtypes)
   \<and> (\<forall>dict tok. findDict h = Some dict \<and> findFirst matchDescrAt dict = Some tok
          \<and> (length tok < 2 \<or> dtypeOfTypeChar (drop 1 tok) = None)
        \<longrightarrow> (\<exists>e. parseHeader h = Inl e)
            \<and> (\<forall>s shape. findFirst matchShapeAt dict = Some s
                   \<and> parseShapeParts (Split (CHR '','') s) [] = Inr shape
                 \<longrightarrow> parseHeader h = Inl (if 2 \<le> length tok then UnsupportedDType tok
                                           else InvalidDTypeFormat tok)))
   \<and> (DType arr \<notin> set supported_dtypes \<longrightarrow>
        generateHeader arr = generateHeader (arr\<lparr>DType := Float64\<rparr>))
   \<and> (DType arr \<notin> set supported_dtypes \<and> DType arr \<noteq> [] \<longrightarrow>
        Write arr = Write (arr\<lparr>DType := Float64\<rparr>))
   \<and> (DType arr = [] \<and> Data arr \<noteq> None \<and> Shape arr \<noteq> None \<longrightarrow> Write arr = Inl ArrayDTypeEmpty)"
proof -
  have 1: "\<forall>hdr. parseHeader h = Inr hdr \<longrightarrow> hDType hdr \<in> set supported_dtypes"
    using parseHeader_dtype_supported [of h] by blast
  have 2: "(\<exists>e. parseHeader h = Inl e)
            \<and> (\<forall>s shape. findFirst matchShapeAt dict = Some s
                   \<and> parseShapeParts (Split (CHR '','') s) [] = Inr shape
                 \<longrightarrow> parseHeader h = Inl (if 2 \<le> length tok then UnsupportedDType tok
                                           else InvalidDTypeFormat tok))"
    if "findDict h = Some dict" "findFirst matchDescrAt dict = Some tok"
      "length tok < 2 \<or> dtypeOfTypeChar (drop 1 tok) = None" for dict tok
    using parseHeader_unknown_dtype [OF that]
      parseHeader_unknown_dtype_error [OF that(1) _ _ that(2,3)] by blast
  have 5: "DType arr = [] \<and> Data arr \<noteq> None \<and> Shape arr \<noteq> None \<longrightarrow> Write arr = Inl ArrayDTypeEmpty"
    by (simp add: Write_def)
  from 1 2 5 generateHeader_default [of arr] Write_default [of arr] show ?thesis by blast
qed

theorem unrecognized_dtype_handling_witness:
  "parseHeader (''{'' @ [quote] @ ''descr'' @ [quote] @ '': '' @ [quote] @ ''|O'' @ [quote]
        @ '', '' @ [quote] @ ''fortran_order'' @ [quote] @ '': False, '' @ [quote] @ ''shape''
        @ [quote] @ '': (1,), }       '' @ [newline]) = Inl (UnsupportedDType ''|O'')
   \<and> Write 
       \<lparr>Data = Some [VFloat64 0x3FF0000000000000, VFloat64 0x4000000000000000],
        Shape = Some [2], DType = ''float'', Fortran = False\<rparr>
     = Write 
       \<lparr>Data = Some [VFloat64 0x3FF0000000000000, VFloat64 0x4000000000000000],
        Shape = Some [2], DType = Float64, Fortran = False\<rparr>"
proof -
  have d: "findDict (''{'' @ [quote] @ ''descr'' @ [quote] @ '': '' @ [quote] @ ''|O'' @ [quote]
        @ '', '' @ [quote] @ ''fortran_order'' @ [quote] @ '': False, '' @ [quote] @ ''shape''
        @ [quote] @ '': (1,), }       '' @ [newline]) = Some (''{'' @ [quote] @ ''descr'' @ [quote] @ '': '' @ [quote] @ ''|O'' @ [quote]
        @ '', '' @ [quote] @ ''fortran_order'' @ [quote] @ '': False, '' @ [quote] @ ''shape''
        @ [quote] @ '': (1,), }'')"
    and t: "findFirst matchDescrAt (''{'' @ [quote] @ ''descr'' @ [quote] @ '': '' @ [quote] @ ''|O'' @ [quote]
        @ '', '' @ [quote] @ ''fortran_order'' @ [quote] @ '': False, '' @ [quote] @ ''shape''
        @ [quote] @ '': (1,), }'') = Some ''|O''"
    and u: "length ''|O'' < 2 \<or> dtypeOfTypeChar (drop 1 ''|O'') = None"
    and s: "findFirst matchShapeAt (''{'' @ [quote] @ ''descr'' @ [quote] @ '': '' @ [quote] @ ''|O'' @ [quote]
        @ '', '' @ [quote] @ ''fortran_order'' @ [quote] @ '': False, '' @ [quote] @ ''shape''
        @ [quote] @ '': (1,), }'') = Some ''1,''"
    and p: "parseShapeParts (Split (CHR '','') ''1,'') [] = Inr [1]"
    by code_simp+
  have x: "DType 
       \<lparr>Data = Some [VFloat64 0x3FF0000000000000, VFloat64 0x4000000000000000],
        Shape = Some [2], DType = ''float'', Fortran = False\<rparr> \<notin> set supported_dtypes \<and> DType 
       \<lparr>Data = Some [VFloat64 0x3FF0000000000000, VFloat64 0x4000000000000000],
        Shape = Some [2], DType = ''float'', Fortran = False\<rparr> \<noteq> []"
    by (simp add: supported_dtypes_def DType_defs)
  from unrecognized_dtype_handling [of "''{'' @ [quote] @ ''descr'' @ [quote] @ '': '' @ [quote] @ ''|O'' @ [quote]
        @ '', '' @ [quote] @ ''fortran_order'' @ [quote] @ '': False, '' @ [quote] @ ''shape''
        @ [quote] @ '': (1,), }       '' @ [newline]" "
       \<lparr>Data = Some [VFloat64 0x3FF0000000000000, VFloat64 0x4000000000000000],
        Shape = Some [2], DType = ''float'', Fortran = False\<rparr>"] d t u s p
  have "parseHeader (''{'' @ [quote] @ ''descr'' @ [quote] @ '': '' @ [quote] @ ''|O'' @ [quote]
        @ '', '' @ [quote] @ ''fortran_order'' @ [quote] @ '': False, '' @ [quote] @ ''shape''
        @ [quote] @ '': (1,), }       '' @ [newline])
      = Inl (if 2 \<le> length ''|O'' then UnsupportedDType ''|O'' else InvalidDTypeFormat ''|O'')"
    by blast
  moreover from unrecognized_dtype_handling [of "''{'' @ [quote] @ ''descr'' @ [quote] @ '': '' @ [quote] @ ''|O'' @ [quote]
        @ '', '' @ [quote] @ ''fortran_order'' @ [quote] @ '': False, '' @ [quote] @ ''shape''
        @ [quote] @ '': (1,), }       '' @ [newline]" "
       \<lparr>Data = Some [VFloat64 0x3FF0000000000000, VFloat64 0x4000000000000000],
        Shape = Some [2], DType = ''float'', Fortran = False\<rparr>"] x
  have "Write 
       \<lparr>Data = Some [VFloat64 0x3FF0000000000000, VFloat64 0x4000000000000000],
        Shape = Some [2], DType = ''float'', Fortran = False\<rparr> = Write (
       \<lparr>Data = Some [VFloat64 0x3FF0000000000000, VFloat64 0x4000000000000000],
        Shape = Some [2], DType = ''float'', Fortran = False\<rparr>\<lparr>DType := Float64\<rparr>)"
    by blast
  ultimately show ?thesis by simp
qed

text \<open>
  The claim as first stated fails on encode: this array of two float64 values has the
  \<open>DType\<close> \<open>float\<close>, which is none of the eleven; \<open>Write\<close> accepts it and records the token
  \<open><f8\<close>, and reading the bytes back gives an array whose \<open>DType\<close> is \<open>float64\<close>.
\<close>

theorem Write_defaults_dtype_counterexample:
  "DType 
       \<lparr>Data = Some [VFloat64 0x3FF0000000000000, VFloat64 0x4000000000000000],
        Shape = Some [2], DType = ''float'', Fortran = False\<rparr> \<notin> set supported_dtypes
   \<and> Write 
       \<lparr>Data = Some [VFloat64 0x3FF0000000000000, VFloat64 0x4000000000000000],
        Shape = Some [2], DType = ''float'', Fortran = False\<rparr>
     = Inr [147, 78, 85, 77, 80, 89, 1, 0, 70, 0, 123, 39, 100, 101, 115, 99, 114,
      39, 58, 32, 39, 60, 102, 56, 39, 44, 32, 39, 102, 111, 114, 116, 114,
      97, 110, 95, 111, 114, 100, 101, 114, 39, 58, 32, 70, 97, 108, 115,
      101, 44, 32, 39, 115, 104, 97, 112, 101, 39, 58, 32, 40, 50, 44, 41,
      44, 32, 125, 32, 32, 32, 32, 32, 32, 32, 32, 32, 32, 32, 32, 10, 0, 0,
      0, 0, 0, 0, 240, 63, 0, 0, 0, 0, 0, 0, 0, 64]
   \<and> Read TFloat64 [147, 78, 85, 77, 80, 89, 1, 0, 70, 0, 123, 39, 100, 101, 115, 99, 114,
      39, 58, 32, 39, 60, 102, 56, 39, 44, 32, 39, 102, 111, 114, 116, 114,
      97, 110, 95, 111, 114, 100, 101, 114, 39, 58, 32, 70, 97, 108, 115,
      101, 44, 32, 39, 115, 104, 97, 112, 101, 39, 58, 32, 40, 50, 44, 41,
      44, 32, 125, 32, 32, 32, 32, 32, 32, 32, 32, 32, 32, 32, 32, 10, 0, 0,
      0, 0, 0, 0, 240, 63, 0, 0, 0, 0, 0, 0, 0, 64]
     = Inr 
       \<lparr>Data = Some [VFloat64 0x3FF0000000000000, VFloat64 0x4000000000000000],
        Shape = Some [2], DType = Float64, Fortran = False\<rparr>"
  by code_simp

section \<open>A member with a wrong magic string\<close>

text \<open>
  C5, as amended. The first pass of \<open>ReadNPZFile\<close> over a member reads six bytes and does
  not compare them with the magic constant. A member whose first six bytes are not the
  magic constant is rejected all the same: reading the member always fails; when the
  first pass gets as far as a parsed header, the failure is that of the second pass, the
  magic check of \<open>Read\<close>, reported as a failure to read an array of the discovered dtype
  from that member; and an archive that holds such a member, not a directory, is not
  decoded.
\<close>

theorem member_bad_magic_rejected:
  assumes "take 6 (Content f) \<noteq> magic"
  shows "(\<exists>e. readMember f = Inl e)
       \<and> (\<forall>hdr. peekHeader (Name f) (Content f) = Inr hdr \<longrightarrow>
             readMember f = Inl (Wrapped (''failed to read '' @ hDType hdr @ '' array from '' @ Name f)
                                   (InvalidMagic (take 6 (Content f)))))
       \<and> (\<forall>files. f \<in> set files \<and> \<not> IsDir f \<longrightarrow> (\<exists>e. ReadNPZFile files = Inl e))"
proof -
  have second: "readMember f = Inl (Wrapped (''failed to read '' @ hDType hdr @ '' array from '' @ Name f)
                                   (InvalidMagic (take 6 (Content f))))"
    if p: "peekHeader (Name f) (Content f) = Inr hdr" for hdr
  proof -
    from p obtain hb where len: "6 \<le> length (Content f)"
      and ph: "parseHeader (string_of_bytes hb) = Inr hdr"
      by (rule peekHeader_InrD)
    from parseHeader_dtype_supported [OF ph] obtain T where T: "typeOfDType (hDType hdr) = Some T"
      using typeOfDType_supported by blast
    have "Read T (Content f) = Inl (InvalidMagic (take 6 (Content f)))"
      using Read_bad_magic [OF assms, of T] len by simp
    with p T show ?thesis by (simp add: readMember_def)
  qed
  have first: "\<exists>e. readMember f = Inl e"
  proof (cases "peekHeader (Name f) (Content f)")
    case (Inl e)
    then show ?thesis by (simp add: readMember_def)
  next
    case (Inr hdr)
    from second [OF this] show ?thesis by blast
  qed
  have third: "\<exists>e. ReadNPZFile files = Inl e" if "f \<in> set files" "\<not> IsDir f" for files
  proof -
    from first obtain e where "readMember f = Inl e" ..
    from readMembers_fails [OF that this] show ?thesis by (simp add: ReadNPZFile_def)
  qed
  from first second third show ?thesis by blast
qed

theorem member_bad_magic_rejected_witness:
  "take 6 (Content 
      \<lparr>Name = ''a.npy'', IsDir = False, Content = [88, 78, 85, 77, 80, 89, 1, 0, 70, 0, 123, 39, 100, 101, 115, 99, 114,
      39, 58, 32, 39, 60, 117, 50, 39, 44, 32, 39, 102, 111, 114, 116, 114,
      97, 110, 95, 111, 114, 100, 101, 114, 39, 58, 32, 70, 97, 108, 115,
      101, 44, 32, 39, 115, 104, 97, 112, 101, 39, 58, 32, 40, 51, 44, 41,
      44, 32, 125, 32, 32, 32, 32, 32, 32, 32, 32, 32, 32, 32, 32, 10, 100,
      0, 200, 0, 44, 1]\<rparr>) \<noteq> magic
   \<and> readMember 
      \<lparr>Name = ''a.npy'', IsDir = False, Content = [88, 78, 85, 77, 80, 89, 1, 0, 70, 0, 123, 39, 100, 101, 115, 99, 114,
      39, 58, 32, 39, 60, 117, 50, 39, 44, 32, 39, 102, 111, 114, 116, 114,
      97, 110, 95, 111, 114, 100, 101, 114, 39, 58, 32, 70, 97, 108, 115,
      101, 44, 32, 39, 115, 104, 97, 112, 101, 39, 58, 32, 40, 51, 44, 41,
      44, 32, 125, 32, 32, 32, 32, 32, 32, 32, 32, 32, 32, 32, 32, 10, 100,
      0, 200, 0, 44, 1]\<rparr>
       = Inl (Wrapped ''failed to read uint16 array from a.npy''
                (InvalidMagic [88, 78, 85, 77, 80, 89]))
   \<and> (\<exists>e. ReadNPZFile [
      \<lparr>Name = ''a.npy'', IsDir = False, Content = [88, 78, 85, 77, 80, 89, 1, 0, 70, 0, 123, 39, 100, 101, 115, 99, 114,
      39, 58, 32, 39, 60, 117, 50, 39, 44, 32, 39, 102, 111, 114, 116, 114,
      97, 110, 95, 111, 114, 100, 101, 114, 39, 58, 32, 70, 97, 108, 115,
      101, 44, 32, 39, 115, 104, 97, 112, 101, 39, 58, 32, 40, 51, 44, 41,
      44, 32, 125, 32, 32, 32, 32, 32, 32, 32, 32, 32, 32, 32, 32, 10, 100,
      0, 200, 0, 44, 1]\<rparr>] = Inl e)"
proof -
  have m: "take 6 (Content 
      \<lparr>Name = ''a.npy'', IsDir = False, Content = [88, 78, 85, 77, 80, 89, 1, 0, 70, 0, 123, 39, 100, 101, 115, 99, 114,
      39, 58, 32, 39, 60, 117, 50, 39, 44, 32, 39, 102, 111, 114, 116, 114,
      97, 110, 95, 111, 114, 100, 101, 114, 39, 58, 32, 70, 97, 108, 115,
      101, 44, 32, 39, 115, 104, 97, 112, 101, 39, 58, 32, 40, 51, 44, 41,
      44, 32, 125, 32, 32, 32, 32, 32, 32, 32, 32, 32, 32, 32, 32, 10, 100,
      0, 200, 0, 44, 1]\<rparr>) \<noteq> magic"
    by (simp add: magic_def)
  have p: "peekHeader (Name 
      \<lparr>Name = ''a.npy'', IsDir = False, Content = [88, 78, 85, 77, 80, 89, 1, 0, 70, 0, 123, 39, 100, 101, 115, 99, 114,
      39, 58, 32, 39, 60, 117, 50, 39, 44, 32, 39, 102, 111, 114, 116, 114,
      97, 110, 95, 111, 114, 100, 101, 114, 39, 58, 32, 70, 97, 108, 115,
      101, 44, 32, 39, 115, 104, 97, 112, 101, 39, 58, 32, 40, 51, 44, 41,
      44, 32, 125, 32, 32, 32, 32, 32, 32, 32, 32, 32, 32, 32, 32, 10, 100,
      0, 200, 0, 44, 1]\<rparr>) (Content 
      \<lparr>Name = ''a.npy'', IsDir = False, Content = [88, 78, 85, 77, 80, 89, 1, 0, 70, 0, 123, 39, 100, 101, 115, 99, 114,
      39, 58, 32, 39, 60, 117, 50, 39, 44, 32, 39, 102, 111, 114, 116, 114,
      97, 110, 95, 111, 114, 100, 101, 114, 39, 58, 32, 70, 97, 108, 115,
      101, 44, 32, 39, 115, 104, 97, 112, 101, 39, 58, 32, 40, 51, 44, 41,
      44, 32, 125, 32, 32, 32, 32, 32, 32, 32, 32, 32, 32, 32, 32, 10, 100,
      0, 200, 0, 44, 1]\<rparr>)
       = Inr \<lparr>hShape = [3], hDType = Uint16, hFortran = False\<rparr>"
    by code_simp
  from member_bad_magic_rejected [OF m]
  have a: "\<forall>hdr. peekHeader (Name 
      \<lparr>Name = ''a.npy'', IsDir = False, Content = [88, 78, 85, 77, 80, 89, 1, 0, 70, 0, 123, 39, 100, 101, 115, 99, 114,
      39, 58, 32, 39, 60, 117, 50, 39, 44, 32, 39, 102, 111, 114, 116, 114,
      97, 110, 95, 111, 114, 100, 101, 114, 39, 58, 32, 70, 97, 108, 115,
      101, 44, 32, 39, 115, 104, 97, 112, 101, 39, 58, 32, 40, 51, 44, 41,
      44, 32, 125, 32, 32, 32, 32, 32, 32, 32, 32, 32, 32, 32, 32, 10, 100,
      0, 200, 0, 44, 1]\<rparr>) (Content 
      \<lparr>Name = ''a.npy'', IsDir = False, Content = [88, 78, 85, 77, 80, 89, 1, 0, 70, 0, 123, 39, 100, 101, 115, 99, 114,
      39, 58, 32, 39, 60, 117, 50, 39, 44, 32, 39, 102, 111, 114, 116, 114,
      97, 110, 95, 111, 114, 100, 101, 114, 39, 58, 32, 70, 97, 108, 115,
      101, 44, 32, 39, 115, 104, 97, 112, 101, 39, 58, 32, 40, 51, 44, 41,
      44, 32, 125, 32, 32, 32, 32, 32, 32, 32, 32, 32, 32, 32, 32, 10, 100,
      0, 200, 0, 44, 1]\<rparr>) = Inr hdr \<longrightarrow>
             readMember 
      \<lparr>Name = ''a.npy'', IsDir = False, Content = [88, 78, 85, 77, 80, 89, 1, 0, 70, 0, 123, 39, 100, 101, 115, 99, 114,
      39, 58, 32, 39, 60, 117, 50, 39, 44, 32, 39, 102, 111, 114, 116, 114,
      97, 110, 95, 111, 114, 100, 101, 114, 39, 58, 32, 70, 97, 108, 115,
      101, 44, 32, 39, 115, 104, 97, 112, 101, 39, 58, 32, 40, 51, 44, 41,
      44, 32, 125, 32, 32, 32, 32, 32, 32, 32, 32, 32, 32, 32, 32, 10, 100,
      0, 200, 0, 44, 1]\<rparr> = Inl (Wrapped (''failed to read '' @ hDType hdr @ '' array from '' @ Name 
      \<lparr>Name = ''a.npy'', IsDir = False, Content = [88, 78, 85, 77, 80, 89, 1, 0, 70, 0, 123, 39, 100, 101, 115, 99, 114,
      39, 58, 32, 39, 60, 117, 50, 39, 44, 32, 39, 102, 111, 114, 116, 114,
      97, 110, 95, 111, 114, 100, 101, 114, 39, 58, 32, 70, 97, 108, 115,
      101, 44, 32, 39, 115, 104, 97, 112, 101, 39, 58, 32, 40, 51, 44, 41,
      44, 32, 125, 32, 32, 32, 32, 32, 32, 32, 32, 32, 32, 32, 32, 10, 100,
      0, 200, 0, 44, 1]\<rparr>)
                                   (InvalidMagic (take 6 (Content 
      \<lparr>Name = ''a.npy'', IsDir = False, Content = [88, 78, 85, 77, 80, 89, 1, 0, 70, 0, 123, 39, 100, 101, 115, 99, 114,
      39, 58, 32, 39, 60, 117, 50, 39, 44, 32, 39, 102, 111, 114, 116, 114,
      97, 110, 95, 111, 114, 100, 101, 114, 39, 58, 32, 70, 97, 108, 115,
      101, 44, 32, 39, 115, 104, 97, 112, 101, 39, 58, 32, 40, 51, 44, 41,
      44, 32, 125, 32, 32, 32, 32, 32, 32, 32, 32, 32, 32, 32, 32, 10, 100,
      0, 200, 0, 44, 1]\<rparr>))))"
    and b: "\<forall>files. 
      \<lparr>Name = ''a.npy'', IsDir = False, Content = [88, 78, 85, 77, 80, 89, 1, 0, 70, 0, 123, 39, 100, 101, 115, 99, 114,
      39, 58, 32, 39, 60, 117, 50, 39, 44, 32, 39, 102, 111, 114, 116, 114,
      97, 110, 95, 111, 114, 100, 101, 114, 39, 58, 32, 70, 97, 108, 115,
      101, 44, 32, 39, 115, 104, 97, 112, 101, 39, 58, 32, 40, 51, 44, 41,
      44, 32, 125, 32, 32, 32, 32, 32, 32, 32, 32, 32, 32, 32, 32, 10, 100,
      0, 200, 0, 44, 1]\<rparr> \<in> set files \<and> \<not> IsDir 
      \<lparr>Name = ''a.npy'', IsDir = False, Content = [88, 78, 85, 77, 80, 89, 1, 0, 70, 0, 123, 39, 100, 101, 115, 99, 114,
      39, 58, 32, 39, 60, 117, 50, 39, 44, 32, 39, 102, 111, 114, 116, 114,
      97, 110, 95, 111, 114, 100, 101, 114, 39, 58, 32, 70, 97, 108, 115,
      101, 44, 32, 39, 115, 104, 97, 112, 101, 39, 58, 32, 40, 51, 44, 41,
      44, 32, 125, 32, 32, 32, 32, 32, 32, 32, 32, 32, 32, 32, 32, 10, 100,
      0, 200, 0, 44, 1]\<rparr> \<longrightarrow> (\<exists>e. ReadNPZFile files = Inl e)"
    by blast+
  from a p have r: "readMember 
      \<lparr>Name = ''a.npy'', IsDir = False, Content = [88, 78, 85, 77, 80, 89, 1, 0, 70, 0, 123, 39, 100, 101, 115, 99, 114,
      39, 58, 32, 39, 60, 117, 50, 39, 44, 32, 39, 102, 111, 114, 116, 114,
      97, 110, 95, 111, 114, 100, 101, 114, 39, 58, 32, 70, 97, 108, 115,
      101, 44, 32, 39, 115, 104, 97, 112, 101, 39, 58, 32, 40, 51, 44, 41,
      44, 32, 125, 32, 32, 32, 32, 32, 32, 32, 32, 32, 32, 32, 32, 10, 100,
      0, 200, 0, 44, 1]\<rparr>
       = Inl (Wrapped ''failed to read uint16 array from a.npy''
                (InvalidMagic [88, 78, 85, 77, 80, 89]))"
    by (simp add: Uint16_def)
  from b have "
      \<lparr>Name = ''a.npy'', IsDir = False, Content = [88, 78, 85, 77, 80, 89, 1, 0, 70, 0, 123, 39, 100, 101, 115, 99, 114,
      39, 58, 32, 39, 60, 117, 50, 39, 44, 32, 39, 102, 111, 114, 116, 114,
      97, 110, 95, 111, 114, 100, 101, 114, 39, 58, 32, 70, 97, 108, 115,
      101, 44, 32, 39, 115, 104, 97, 112, 101, 39, 58, 32, 40, 51, 44, 41,
      44, 32, 125, 32, 32, 32, 32, 32, 32, 32, 32, 32, 32, 32, 32, 10, 100,
      0, 200, 0, 44, 1]\<rparr> \<in> set [
      \<lparr>Name = ''a.npy'', IsDir = False, Content = [88, 78, 85, 77, 80, 89, 1, 0, 70, 0, 123, 39, 100, 101, 115, 99, 114,
      39, 58, 32, 39, 60, 117, 50, 39, 44, 32, 39, 102, 111, 114, 116, 114,
      97, 110, 95, 111, 114, 100, 101, 114, 39, 58, 32, 70, 97, 108, 115,
      101, 44, 32, 39, 115, 104, 97, 112, 101, 39, 58, 32, 40, 51, 44, 41,
      44, 32, 125, 32, 32, 32, 32, 32, 32, 32, 32, 32, 32, 32, 32, 10, 100,
      0, 200, 0, 44, 1]\<rparr>] \<and> \<not> IsDir 
      \<lparr>Name = ''a.npy'', IsDir = False, Content = [88, 78, 85, 77, 80, 89, 1, 0, 70, 0, 123, 39, 100, 101, 115, 99, 114,
      39, 58, 32, 39, 60, 117, 50, 39, 44, 32, 39, 102, 111, 114, 116, 114,
      97, 110, 95, 111, 114, 100, 101, 114, 39, 58, 32, 70, 97, 108, 115,
      101, 44, 32, 39, 115, 104, 97, 112, 101, 39, 58, 32, 40, 51, 44, 41,
      44, 32, 125, 32, 32, 32, 32, 32, 32, 32, 32, 32, 32, 32, 32, 10, 100,
      0, 200, 0, 44, 1]\<rparr> \<longrightarrow> (\<exists>e. ReadNPZFile [
      \<lparr>Name = ''a.npy'', IsDir = False, Content = [88, 78, 85, 77, 80, 89, 1, 0, 70, 0, 123, 39, 100, 101, 115, 99, 114,
      39, 58, 32, 39, 60, 117, 50, 39, 44, 32, 39, 102, 111, 114, 116, 114,
      97, 110, 95, 111, 114, 100, 101, 114, 39, 58, 32, 70, 97, 108, 115,
      101, 44, 32, 39, 115, 104, 97, 112, 101, 39, 58, 32, 40, 51, 44, 41,
      44, 32, 125, 32, 32, 32, 32, 32, 32, 32, 32, 32, 32, 32, 32, 10, 100,
      0, 200, 0, 44, 1]\<rparr>] = Inl e)"
    by (rule spec)
  then have "\<exists>e. ReadNPZFile [
      \<lparr>Name = ''a.npy'', IsDir = False, Content = [88, 78, 85, 77, 80, 89, 1, 0, 70, 0, 123, 39, 100, 101, 115, 99, 114,
      39, 58, 32, 39, 60, 117, 50, 39, 44, 32, 39, 102, 111, 114, 116, 114,
      97, 110, 95, 111, 114, 100, 101, 114, 39, 58, 32, 70, 97, 108, 115,
      101, 44, 32, 39, 115, 104, 97, 112, 101, 39, 58, 32, 40, 51, 44, 41,
      44, 32, 125, 32, 32, 32, 32, 32, 32, 32, 32, 32, 32, 32, 32, 10, 100,
      0, 200, 0, 44, 1]\<rparr>] = Inl e"
    by simp
  with m r show ?thesis by blast
qed

text \<open>
  The claim as first stated fails: on this member, which starts with \<open>X\<close> in place of
  the byte \<open>0x93\<close>, the first pass returns the parsed header and no error.
\<close>

theorem first_pass_ignores_magic_counterexample:
  "take 6 ([88, 78, 85, 77, 80, 89, 1, 0, 70, 0, 123, 39, 100, 101, 115, 99, 114,
      39, 58, 32, 39, 60, 117, 50, 39, 44, 32, 39, 102, 111, 114, 116, 114,
      97, 110, 95, 111, 114, 100, 101, 114, 39, 58, 32, 70, 97, 108, 115,
      101, 44, 32, 39, 115, 104, 97, 112, 101, 39, 58, 32, 40, 51, 44, 41,
      44, 32, 125, 32, 32, 32, 32, 32, 32, 32, 32, 32, 32, 32, 32, 10, 100,
      0, 200, 0, 44, 1] :: byte list) \<noteq> magic
   \<and> peekHeader ''a.npy'' [88, 78, 85, 77, 80, 89, 1, 0, 70, 0, 123, 39, 100, 101, 115, 99, 114,
      39, 58, 32, 39, 60, 117, 50, 39, 44, 32, 39, 102, 111, 114, 116, 114,
      97, 110, 95, 111, 114, 100, 101, 114, 39, 58, 32, 70, 97, 108, 115,
      101, 44, 32, 39, 115, 104, 97, 112, 101, 39, 58, 32, 40, 51, 44, 41,
      44, 32, 125, 32, 32, 32, 32, 32, 32, 32, 32, 32, 32, 32, 32, 10, 100,
      0, 200, 0, 44, 1]
       = Inr \<lparr>hShape = [3], hDType = Uint16, hFortran = False\<rparr>"
  by code_simp

section \<open>The tabular projection of a matrix\<close>

text \<open>
  C6. Let the shape be \<open>[R, C]\<close> with \<open>R\<close> and \<open>C\<close> not negative and let \<open>Data\<close> hold at
  least \<open>R * C\<close> elements (the length of a Go slice is below \<open>2 ^ 63\<close>). Then \<open>ToCsv\<close>
  returns no error and writes exactly \<open>R\<close> records of \<open>C\<close> fields, where the field of row \<open>r\<close>
  and column \<open>c\<close> is the text of \<open>Data[c*R + r]\<close> in Fortran order and of \<open>Data[r*C + c]\<close>
  otherwise. Consequently a row-major array whose element at \<open>r*C + c\<close> is the element
  at \<open>c*R + r\<close> of a column-major array of the same shape is written as the same table.
\<close>

theorem ToCsv_matrix:
  assumes "Shape arr = Some [R, C]" and "0 \<le> sint R" and "0 \<le> sint C"
    and "sint R * sint C \<le> len (Data arr)" and "len (Data arr) < 2 ^ 63"
  shows "ToCsv ff arr =
           (map (\<lambda>r. map (\<lambda>c. Sprintf_v ff (elems (Data arr) !
                                (if Fortran arr then c * nat (sint R) + r
                                 else r * nat (sint C) + c)))
                          [0..<nat (sint C)])
                [0..<nat (sint R)], None)
       \<and> (\<forall>arr'. Shape arr' = Some [R, C] \<and> sint R * sint C \<le> len (Data arr')
                 \<and> len (Data arr') < 2 ^ 63 \<and> Fortran arr \<and> \<not> Fortran arr'
                 \<and> (\<forall>r<nat (sint R). \<forall>c<nat (sint C).
                        elems (Data arr') ! (r * nat (sint C) + c)
                        = elems (Data arr) ! (c * nat (sint R) + r))
               \<longrightarrow> ToCsv ff arr' = ToCsv ff arr)"
proof -
  have table: "ToCsv ff a =
           (map (\<lambda>r. map (\<lambda>c. Sprintf_v ff (elems (Data a) !
                                (if Fortran a then c * nat (sint R) + r
                                 else r * nat (sint C) + c)))
                          [0..<nat (sint C)])
                [0..<nat (sint R)], None)"
    if a: "Shape a = Some [R, C]" "sint R * sint C \<le> len (Data a)" "len (Data a) < 2 ^ 63" for a
  proof -
    have lt: "sint R * sint C < 2 ^ 63" using a by linarith
    have idx: "cellIndex (Fortran a) R C r c
        = int (if Fortran a then c * nat (sint R) + r else r * nat (sint C) + c)"
      and bnd: "(if Fortran a then c * nat (sint R) + r else r * nat (sint C) + c)
        < nat (sint R) * nat (sint C)"
      if "r < nat (sint R)" "c < nat (sint C)" for r c
      using cellIndex_eq [OF assms(2,3) lt that] by blast+
    have RC: "int (nat (sint R) * nat (sint C)) \<le> int (length (elems (Data a)))"
      using a(2) assms(2,3) by (simp add: len_def)
    have rng: "\<forall>r\<in>set [0..<nat (sint R)]. \<forall>c<nat (sint C).
           0 \<le> cellIndex (Fortran a) R C r c
           \<and> cellIndex (Fortran a) R C r c < int (length (elems (Data a)))"
    proof (intro ballI allI impI)
      fix r c assume "r \<in> set [0..<nat (sint R)]" "c < nat (sint C)"
      then have r: "r < nat (sint R)" and c: "c < nat (sint C)" by simp_all
      show "0 \<le> cellIndex (Fortran a) R C r c
           \<and> cellIndex (Fortran a) R C r c < int (length (elems (Data a)))"
        using idx [OF r c] bnd [OF r c] RC by linarith
    qed
    have "ToCsv ff a = writeRows ff a R C [0..<nat (sint R)]"
      using a(1) by (simp add: ToCsv_def elems_def)
    also have "\<dots> = (map (\<lambda>r. map (\<lambda>c. Sprintf_v ff (elems (Data a) !
                                nat (cellIndex (Fortran a) R C r c)))
                          [0..<nat (sint C)])
                [0..<nat (sint R)], None)"
      by (rule writeRows_in_range [OF assms(3) rng])
    also have "\<dots> = (map (\<lambda>r. map (\<lambda>c. Sprintf_v ff (elems (Data a) !
                                (if Fortran a then c * nat (sint R) + r
                                 else r * nat (sint C) + c)))
                          [0..<nat (sint C)])
                [0..<nat (sint R)], None)"
      using idx by (auto intro!: map_cong)
    finally show ?thesis .
  qed
  have "ToCsv ff arr' = ToCsv ff arr"
    if a': "Shape arr' = Some [R, C]" "sint R * sint C \<le> len (Data arr')"
      "len (Data arr') < 2 ^ 63" and f: "Fortran arr" "\<not> Fortran arr'"
      and same: "\<forall>r<nat (sint R). \<forall>c<nat (sint C).
                        elems (Data arr') ! (r * nat (sint C) + c)
                        = elems (Data arr) ! (c * nat (sint R) + r)" for arr'
    unfolding table [OF a'] table [OF assms(1,4,5)] using f same by (auto intro!: map_cong)
  with table [OF assms(1,4,5)] show ?thesis by blast
qed

theorem ToCsv_matrix_witness:
  "ToCsv (\<lambda>v. []) \<lparr>Data = Some [VInt32 1, VInt32 4, VInt32 2, VInt32 5, VInt32 3, VInt32 6],
                     Shape = Some [2, 3], DType = Int32, Fortran = True\<rparr>
     = ([[''1'', ''2'', ''3''], [''4'', ''5'', ''6'']], None)
   \<and> ToCsv (\<lambda>v. []) \<lparr>Data = Some [VInt32 1, VInt32 2, VInt32 3, VInt32 4, VInt32 5, VInt32 6],
                     Shape = Some [2, 3], DType = Int32, Fortran = False\<rparr>
     = ToCsv (\<lambda>v. []) \<lparr>Data = Some [VInt32 1, VInt32 4, VInt32 2, VInt32 5, VInt32 3, VInt32 6],
                     Shape = Some [2, 3], DType = Int32, Fortran = True\<rparr>"
proof -
  let ?cm = "\<lparr>Data = Some [VInt32 1, VInt32 4, VInt32 2, VInt32 5, VInt32 3, VInt32 6],
                     Shape = Some [2, 3], DType = Int32, Fortran = True\<rparr>"
  let ?rm = "\<lparr>Data = Some [VInt32 1, VInt32 2, VInt32 3, VInt32 4, VInt32 5, VInt32 6],
                     Shape = Some [2, 3], DType = Int32, Fortran = False\<rparr>"
  have n2: "nat (sint (2 :: goint)) = 2" and n3: "nat (sint (3 :: goint)) = 3" by simp_all
  have u2: "[0..<2] = [0, Suc 0]" and u3: "[0..<3] = [0, Suc 0, Suc (Suc 0)]"
    by (simp_all add: upt_rec)
  have t: "FormatInt 1 = ''1''" "FormatInt 2 = ''2''" "FormatInt 3 = ''3''"
    "FormatInt 4 = ''4''" "FormatInt 5 = ''5''" "FormatInt 6 = ''6''"
    by code_simp+
  have h: "Shape ?cm = Some [2, 3]" "0 \<le> sint (2 :: goint)" "0 \<le> sint (3 :: goint)"
    "sint (2 :: goint) * sint (3 :: goint) \<le> len (Data ?cm)" "len (Data ?cm) < 2 ^ 63"
    by (simp_all add: len_def elems_def)
  have same: "\<forall>r<nat (sint (2 :: goint)). \<forall>c<nat (sint (3 :: goint)).
       elems (Data ?rm) ! (r * nat (sint (3 :: goint)) + c)
       = elems (Data ?cm) ! (c * nat (sint (2 :: goint)) + r)"
    unfolding n2 n3 by (simp add: elems_def less_Suc_eq numeral_2_eq_2 numeral_3_eq_3)
  from ToCsv_matrix [OF h, of "\<lambda>v. []"]
  have 1: "ToCsv (\<lambda>v. []) ?cm = ([[''1'', ''2'', ''3''], [''4'', ''5'', ''6'']], None)"
    and 2: "\<And>arr'. Shape arr' = Some [2, 3] \<and> sint (2 :: goint) * sint (3 :: goint) \<le> len (Data arr')
                 \<and> len (Data arr') < 2 ^ 63 \<and> Fortran ?cm \<and> \<not> Fortran arr'
                 \<and> (\<forall>r<nat (sint (2 :: goint)). \<forall>c<nat (sint (3 :: goint)).
                        elems (Data arr') ! (r * nat (sint (3 :: goint)) + c)
                        = elems (Data ?cm) ! (c * nat (sint (2 :: goint)) + r))
               \<Longrightarrow> ToCsv (\<lambda>v. []) arr' = ToCsv (\<lambda>v. []) ?cm"
    unfolding n2 n3 u2 u3 by (simp_all add: elems_def t)
  have "ToCsv (\<lambda>v. []) ?rm = ToCsv (\<lambda>v. []) ?cm"
    by (rule 2) (use same in \<open>simp add: len_def elems_def\<close>)
  with 1 show ?thesis by simp
qed

section \<open>The tabular projection by dimensionality\<close>

text \<open>
  C7. \<open>ToCsv\<close> writes no record and returns no error for a shape with no dimension and
  for the shape \<open>[0]\<close>; for a shape with one dimension of size greater than 0 it writes
  exactly one record, the text of every element of \<open>Data\<close> in order; for a shape with
  three or more dimensions it writes no record and returns the error about unsupported
  dimensions.
\<close>

theorem ToCsv_dimensionality:
  "(elems (Shape arr) = [] \<or> elems (Shape arr) = [0] \<longrightarrow> ToCsv ff arr = ([], None))
   \<and> (\<forall>d. elems (Shape arr) = [d] \<and> 0 < sint d \<longrightarrow>
          ToCsv ff arr = ([map (Sprintf_v ff) (elems (Data arr))], None))
   \<and> (3 \<le> length (elems (Shape arr)) \<longrightarrow> ToCsv ff arr = ([], Some UnsupportedDimensions))"
  by (auto simp: ToCsv_def Let_def)

theorem ToCsv_dimensionality_witness:
  "ToCsv (\<lambda>v. []) \<lparr>Data = Some [VInt32 7], Shape = Some [], DType = Int32, Fortran = False\<rparr>
     = ([], None)
   \<and> ToCsv (\<lambda>v. []) \<lparr>Data = Some [], Shape = Some [0], DType = Int32, Fortran = False\<rparr>
     = ([], None)
   \<and> ToCsv (\<lambda>v. []) \<lparr>Data = Some [VInt32 5, VInt32 (- 6), VInt32 7], Shape = Some [3],
                       DType = Int32, Fortran = False\<rparr>
     = ([[''5'', ''-6'', ''7'']], None)
   \<and> ToCsv (\<lambda>v. []) \<lparr>Data = Some [VInt32 1, VInt32 2, VInt32 3, VInt32 4, VInt32 5, VInt32 6,
                                    VInt32 7, VInt32 8],
                       Shape = Some [2, 2, 2], DType = Int32, Fortran = False\<rparr>
     = ([], Some UnsupportedDimensions)"
proof -
  have t: "map (Sprintf_v (\<lambda>v. [])) [VInt32 5, VInt32 (- 6), VInt32 7] = [''5'', ''-6'', ''7'']"
    by code_simp
  show ?thesis
    using ToCsv_dimensionality [of "\<lparr>Data = Some [VInt32 7], Shape = Some [], DType = Int32,
                                     Fortran = False\<rparr>" "\<lambda>v. []"]
      ToCsv_dimensionality [of "\<lparr>Data = Some [], Shape = Some [0], DType = Int32,
                                     Fortran = False\<rparr>" "\<lambda>v. []"]
      ToCsv_dimensionality [of "\<lparr>Data = Some [VInt32 5, VInt32 (- 6), VInt32 7], Shape = Some [3],
                       DType = Int32, Fortran = False\<rparr>" "\<lambda>v. []"]
      ToCsv_dimensionality [of "\<lparr>Data = Some [VInt32 1, VInt32 2, VInt32 3, VInt32 4, VInt32 5,
                                    VInt32 6, VInt32 7, VInt32 8],
                       Shape = Some [2, 2, 2], DType = Int32, Fortran = False\<rparr>" "\<lambda>v. []"]
      t
    by (simp add: elems_def)
qed

section \<open>Retrieval by name and element type\<close>

text \<open>
  C8. \<open>Get[T]\<close> gives \<open>(nil, false)\<close> when the name is absent and when the entry stored
  under the name has an element type other than \<open>T\<close>; it gives the stored array and
  \<open>true\<close> when the entry has element type \<open>T\<close>. So \<open>ok\<close> holds exactly for an entry of
  type \<open>T\<close>, an array that is returned is the stored one and has type \<open>T\<close>, and the
  result, a pointer and a boolean, has no room for an error of its own.
\<close>

theorem Get_found_iff:
  "(arrays npz name = None \<longrightarrow> Get T npz name = (None, False))
   \<and> (\<forall>T' arr. arrays npz name = Some (T', arr) \<and> T' \<noteq> T \<longrightarrow> Get T npz name = (None, False))
   \<and> (\<forall>arr. arrays npz name = Some (T, arr) \<longrightarrow> Get T npz name = (Some arr, True))
   \<and> (snd (Get T npz name) \<longleftrightarrow> (\<exists>arr. arrays npz name = Some (T, arr)))
   \<and> (\<forall>arr. fst (Get T npz name) = Some arr \<longrightarrow> arrays npz name = Some (T, arr))"
  by (auto simp: Get_def split: option.splits)

theorem Get_found_iff_witness:
  "Get TInt32 (Add TInt32 (Add TFloat64 NewNPZFile ''array1''
        \<lparr>Data = Some [VFloat64 0, VFloat64 1, VFloat64 2, VFloat64 3], Shape = Some [2, 2],
         DType = Float64, Fortran = False\<rparr>) ''array2''
        \<lparr>Data = Some [VInt32 5, VInt32 6, VInt32 7, VInt32 8, VInt32 9], Shape = Some [5],
         DType = Int32, Fortran = False\<rparr>) ''array1'' = (None, False)
   \<and> Get TInt32 (Add TInt32 (Add TFloat64 NewNPZFile ''array1''
        \<lparr>Data = Some [VFloat64 0, VFloat64 1, VFloat64 2, VFloat64 3], Shape = Some [2, 2],
         DType = Float64, Fortran = False\<rparr>) ''array2''
        \<lparr>Data = Some [VInt32 5, VInt32 6, VInt32 7, VInt32 8, VInt32 9], Shape = Some [5],
         DType = Int32, Fortran = False\<rparr>) ''array3'' = (None, False)
   \<and> Get TFloat64 (Add TInt32 (Add TFloat64 NewNPZFile ''array1''
        \<lparr>Data = Some [VFloat64 0, VFloat64 1, VFloat64 2, VFloat64 3], Shape = Some [2, 2],
         DType = Float64, Fortran = False\<rparr>) ''array2''
        \<lparr>Data = Some [VInt32 5, VInt32 6, VInt32 7, VInt32 8, VInt32 9], Shape = Some [5],
         DType = Int32, Fortran = False\<rparr>) ''array1''
       = (Some \<lparr>Data = Some [VFloat64 0, VFloat64 1, VFloat64 2, VFloat64 3], Shape = Some [2, 2],
                DType = Float64, Fortran = False\<rparr>, True)"
  using Get_found_iff [of "Add TInt32 (Add TFloat64 NewNPZFile ''array1''
        \<lparr>Data = Some [VFloat64 0, VFloat64 1, VFloat64 2, VFloat64 3], Shape = Some [2, 2],
         DType = Float64, Fortran = False\<rparr>) ''array2''
        \<lparr>Data = Some [VInt32 5, VInt32 6, VInt32 7, VInt32 8, VInt32 9], Shape = Some [5],
         DType = Int32, Fortran = False\<rparr>" "''array1''" TInt32]
    Get_found_iff [of "Add TInt32 (Add TFloat64 NewNPZFile ''array1''
        \<lparr>Data = Some [VFloat64 0, VFloat64 1, VFloat64 2, VFloat64 3], Shape = Some [2, 2],
         DType = Float64, Fortran = False\<rparr>) ''array2''
        \<lparr>Data = Some [VInt32 5, VInt32 6, VInt32 7, VInt32 8, VInt32 9], Shape = Some [5],
         DType = Int32, Fortran = False\<rparr>" "''array3''" TInt32]
    Get_found_iff [of "Add TInt32 (Add TFloat64 NewNPZFile ''array1''
        \<lparr>Data = Some [VFloat64 0, VFloat64 1, VFloat64 2, VFloat64 3], Shape = Some [2, 2],
         DType = Float64, Fortran = False\<rparr>) ''array2''
        \<lparr>Data = Some [VInt32 5, VInt32 6, VInt32 7, VInt32 8, VInt32 9], Shape = Some [5],
         DType = Int32, Fortran = False\<rparr>" "''array1''" TFloat64]
  by (simp add: Add_def NewNPZFile_def)

section \<open>The header length of a version-2 stream\<close>

text \<open>
  C9. For major version 2 the four-byte little-endian length \<open>L\<close> is narrowed to 16 bits:
  the header-length step yields \<open>ucast L\<close>, whose value is \<open>L mod 2 ^ 16\<close>; \<open>Read\<close> and the
  first pass of \<open>ReadNPZFile\<close> treat the stream exactly as the version-1 stream that
  declares the length \<open>L mod 2 ^ 16\<close> in two bytes; and when that many bytes are there,
  \<open>Read\<close> parses the first \<open>L mod 2 ^ 16\<close> bytes after the length as the header and reads
  the data after them.
\<close>

theorem header_length_narrowed:
  "readHeaderLen 2 (LE_PutUint32 L @ rest) = Inr (ucast L, rest)
   \<and> unat (ucast L :: 16 word) = unat L mod 2 ^ 16
   \<and> Read T (magic @ [2, minor] @ LE_PutUint32 L @ rest)
       = Read T (magic @ [1, minor] @ LE_PutUint16 (ucast L) @ rest)
   \<and> peekHeader fname (magic @ [2, minor] @ LE_PutUint32 L @ rest)
       = peekHeader fname (magic @ [1, minor] @ LE_PutUint16 (ucast L) @ rest)
   \<and> (unat L mod 2 ^ 16 \<le> length rest \<longrightarrow>
        Read T (magic @ [2, minor] @ LE_PutUint32 L @ rest)
        = (case parseHeader (string_of_bytes (take (unat L mod 2 ^ 16) rest)) of
             Inl e \<Rightarrow> Inl (wrap ''failed to parse header'' e)
           | Inr hdr \<Rightarrow>
               (case readData T (drop (unat L mod 2 ^ 16) rest) hdr of
                  Inl e \<Rightarrow> Inl (wrap ''failed to read data'' e)
                | Inr data \<Rightarrow>
                    Inr \<lparr>Data = Some data, Shape = Some (hShape hdr), DType = hDType hdr,
                         Fortran = hFortran hdr\<rparr>)))"
proof -
  have n: "unat (ucast L :: 16 word) = unat L mod 2 ^ 16"
    by (simp add: unsigned_ucast_eq take_bit_eq_mod unsigned_take_bit_eq)
  have r: "Read T (magic @ [2, minor] @ LE_PutUint32 L @ rest)
       = Read T (magic @ [1, minor] @ LE_PutUint16 (ucast L) @ rest)"
    by (simp only: Read_envelope readHeaderLen_v1 readHeaderLen_v2 sum.case prod.case)
  have p: "peekHeader fname (magic @ [2, minor] @ LE_PutUint32 L @ rest)
       = peekHeader fname (magic @ [1, minor] @ LE_PutUint16 (ucast L) @ rest)"
    by (simp only: peekHeader_envelope [OF length_magic] readHeaderLen_v1 readHeaderLen_v2
        sum.case prod.case)
  have b: "Read T (magic @ [2, minor] @ LE_PutUint32 L @ rest)
        = (case parseHeader (string_of_bytes (take (unat L mod 2 ^ 16) rest)) of
             Inl e \<Rightarrow> Inl (wrap ''failed to parse header'' e)
           | Inr hdr \<Rightarrow>
               (case readData T (drop (unat L mod 2 ^ 16) rest) hdr of
                  Inl e \<Rightarrow> Inl (wrap ''failed to read data'' e)
                | Inr data \<Rightarrow>
                    Inr \<lparr>Data = Some data, Shape = Some (hShape hdr), DType = hDType hdr,
                         Fortran = hFortran hdr\<rparr>))"
    if "unat L mod 2 ^ 16 \<le> length rest"
    using ReadFull_enough [OF that]
    by (simp only: Read_envelope readHeaderLen_v2 n sum.case prod.case)
  from n r p b readHeaderLen_v2 show ?thesis by blast
qed

theorem header_length_narrowed_witness:
  "unat (65606 :: 32 word) mod 2 ^ 16 \<le> length ([123, 39, 100, 101, 115, 99, 114,
      39, 58, 32, 39, 60, 117, 50, 39, 44, 32, 39, 102, 111, 114, 116, 114,
      97, 110, 95, 111, 114, 100, 101, 114, 39, 58, 32, 70, 97, 108, 115,
      101, 44, 32, 39, 115, 104, 97, 112, 101, 39, 58, 32, 40, 51, 44, 41,
      44, 32, 125, 32, 32, 32, 32, 32, 32, 32, 32, 32, 32, 32, 32, 10, 100,
      0, 200, 0, 44, 1] :: byte list)
   \<and> Read TUint16 (magic @ [2, 0] @ LE_PutUint32 65606 @ [123, 39, 100, 101, 115, 99, 114,
      39, 58, 32, 39, 60, 117, 50, 39, 44, 32, 39, 102, 111, 114, 116, 114,
      97, 110, 95, 111, 114, 100, 101, 114, 39, 58, 32, 70, 97, 108, 115,
      101, 44, 32, 39, 115, 104, 97, 112, 101, 39, 58, 32, 40, 51, 44, 41,
      44, 32, 125, 32, 32, 32, 32, 32, 32, 32, 32, 32, 32, 32, 32, 10, 100,
      0, 200, 0, 44, 1])
       = Inr \<lparr>Data = Some [VUint16 100, VUint16 200, VUint16 300], Shape = Some [3],
               DType = Uint16, Fortran = False\<rparr>"
proof -
  have v1: "Read TUint16 (magic @ [1, 0] @ LE_PutUint16 (ucast (65606 :: 32 word)) @ [123, 39, 100, 101, 115, 99, 114,
      39, 58, 32, 39, 60, 117, 50, 39, 44, 32, 39, 102, 111, 114, 116, 114,
      97, 110, 95, 111, 114, 100, 101, 114, 39, 58, 32, 70, 97, 108, 115,
      101, 44, 32, 39, 115, 104, 97, 112, 101, 39, 58, 32, 40, 51, 44, 41,
      44, 32, 125, 32, 32, 32, 32, 32, 32, 32, 32, 32, 32, 32, 32, 10, 100,
      0, 200, 0, 44, 1])
       = Inr \<lparr>Data = Some [VUint16 100, VUint16 200, VUint16 300], Shape = Some [3],
               DType = Uint16, Fortran = False\<rparr>"
    by code_simp
  have n: "unat (65606 :: 32 word) mod 2 ^ 16 \<le> length ([123, 39, 100, 101, 115, 99, 114,
      39, 58, 32, 39, 60, 117, 50, 39, 44, 32, 39, 102, 111, 114, 116, 114,
      97, 110, 95, 111, 114, 100, 101, 114, 39, 58, 32, 70, 97, 108, 115,
      101, 44, 32, 39, 115, 104, 97, 112, 101, 39, 58, 32, 40, 51, 44, 41,
      44, 32, 125, 32, 32, 32, 32, 32, 32, 32, 32, 32, 32, 32, 32, 10, 100,
      0, 200, 0, 44, 1] :: byte list)"
    by simp
  from header_length_narrowed [of 65606 "[123, 39, 100, 101, 115, 99, 114,
      39, 58, 32, 39, 60, 117, 50, 39, 44, 32, 39, 102, 111, 114, 116, 114,
      97, 110, 95, 111, 114, 100, 101, 114, 39, 58, 32, 70, 97, 108, 115,
      101, 44, 32, 39, 115, 104, 97, 112, 101, 39, 58, 32, 40, 51, 44, 41,
      44, 32, 125, 32, 32, 32, 32, 32, 32, 32, 32, 32, 32, 32, 32, 10, 100,
      0, 200, 0, 44, 1]" TUint16 0 "[]"] v1 n
  show ?thesis by simp
qed

section \<open>Decoded shapes have no negative dimension\<close>

text \<open>
  C10. Every header that \<open>parseHeader\<close> accepts has a shape whose dimensions are all at
  least 0, because the shape text is matched against digits, commas and white space only,
  and therefore every array that \<open>Read\<close> returns has a shape, all of whose entries are at
  least 0.
\<close>

theorem decoded_shape_nonneg:
  "(parseHeader h = Inr hdr \<longrightarrow> (\<forall>d\<in>set (hShape hdr). 0 \<le> sint d))
   \<and> (Read T r = Inr arr \<longrightarrow> (\<exists>shape. Shape arr = Some shape \<and> (\<forall>d\<in>set shape. 0 \<le> sint d)))"
proof -
  have "\<exists>shape. Shape arr = Some shape \<and> (\<forall>d\<in>set shape. 0 \<le> sint d)" if "Read T r = Inr arr"
  proof -
    from that obtain hb hdr where "parseHeader (string_of_bytes hb) = Inr hdr"
      and "Shape arr = Some (hShape hdr)"
      by (rule Read_InrD) simp
    then show ?thesis using parseHeader_shape_nonneg [of "string_of_bytes hb" hdr] by simp
  qed
  then show ?thesis using parseHeader_shape_nonneg [of h hdr] by blast
qed

theorem decoded_shape_nonneg_witness:
  "parseHeader (''{'' @ [quote] @ ''descr'' @ [quote] @ '': '' @ [quote] @ ''<i8'' @ [quote]
        @ '', '' @ [quote] @ ''fortran_order'' @ [quote] @ '': True, '' @ [quote] @ ''shape''
        @ [quote] @ '': (2, 0, 9223372036854775807), }'')
     = Inr \<lparr>hShape = [2, 0, 9223372036854775807], hDType = Int64, hFortran = True\<rparr>
   \<and> 0 \<le> sint (2 :: goint) \<and> 0 \<le> sint (0 :: goint)
   \<and> 0 \<le> sint (9223372036854775807 :: goint)
   \<and> Read TUint16 [147, 78, 85, 77, 80, 89, 1, 0, 70, 0, 123, 39, 100, 101, 115, 99, 114,
      39, 58, 32, 39, 60, 117, 50, 39, 44, 32, 39, 102, 111, 114, 116, 114,
      97, 110, 95, 111, 114, 100, 101, 114, 39, 58, 32, 70, 97, 108, 115,
      101, 44, 32, 39, 115, 104, 97, 112, 101, 39, 58, 32, 40, 51, 44, 41,
      44, 32, 125, 32, 32, 32, 32, 32, 32, 32, 32, 32, 32, 32, 32, 10, 100,
      0, 200, 0, 44, 1]
     = Inr \<lparr>Data = Some [VUint16 100, VUint16 200, VUint16 300], Shape = Some [3],
             DType = Uint16, Fortran = False\<rparr>
   \<and> 0 \<le> sint (3 :: goint)"
proof -
  have p: "parseHeader (''{'' @ [quote] @ ''descr'' @ [quote] @ '': '' @ [quote] @ ''<i8'' @ [quote]
        @ '', '' @ [quote] @ ''fortran_order'' @ [quote] @ '': True, '' @ [quote] @ ''shape''
        @ [quote] @ '': (2, 0, 9223372036854775807), }'')
     = Inr \<lparr>hShape = [2, 0, 9223372036854775807], hDType = Int64, hFortran = True\<rparr>"
    by code_simp
  have r: "Read TUint16 [147, 78, 85, 77, 80, 89, 1, 0, 70, 0, 123, 39, 100, 101, 115, 99, 114,
      39, 58, 32, 39, 60, 117, 50, 39, 44, 32, 39, 102, 111, 114, 116, 114,
      97, 110, 95, 111, 114, 100, 101, 114, 39, 58, 32, 70, 97, 108, 115,
      101, 44, 32, 39, 115, 104, 97, 112, 101, 39, 58, 32, 40, 51, 44, 41,
      44, 32, 125, 32, 32, 32, 32, 32, 32, 32, 32, 32, 32, 32, 32, 10, 100,
      0, 200, 0, 44, 1]
     = Inr \<lparr>Data = Some [VUint16 100, VUint16 200, VUint16 300], Shape = Some [3],
             DType = Uint16, Fortran = False\<rparr>"
    by code_simp
  from decoded_shape_nonneg [of "(''{'' @ [quote] @ ''descr'' @ [quote] @ '': '' @ [quote] @ ''<i8'' @ [quote]
        @ '', '' @ [quote] @ ''fortran_order'' @ [quote] @ '': True, '' @ [quote] @ ''shape''
        @ [quote] @ '': (2, 0, 9223372036854775807), }'')"
      "\<lparr>hShape = [2, 0, 9223372036854775807], hDType = Int64, hFortran = True\<rparr>"
      TUint16 "[147, 78, 85, 77, 80, 89, 1, 0, 70, 0, 123, 39, 100, 101, 115, 99, 114,
      39, 58, 32, 39, 60, 117, 50, 39, 44, 32, 39, 102, 111, 114, 116, 114,
      97, 110, 95, 111, 114, 100, 101, 114, 39, 58, 32, 70, 97, 108, 115,
      101, 44, 32, 39, 115, 104, 97, 112, 101, 39, 58, 32, 40, 51, 44, 41,
      44, 32, 125, 32, 32, 32, 32, 32, 32, 32, 32, 32, 32, 32, 32, 10, 100,
      0, 200, 0, 44, 1]"
      "\<lparr>Data = Some [VUint16 100, VUint16 200, VUint16 300], Shape = Some [3],
             DType = Uint16, Fortran = False\<rparr>"] p r
  show ?thesis by simp
qed
end
